theory Spec2Isabelle
  imports Main
begin

section \<open>JavaScript values used by the game clients\<close>

text \<open>
  Identifiers (participant, question and session ids, room ids, session tokens, lock
  keys) are opaque tokens of TypeScript type \<open>string\<close>; they are modelled as
  \<^typ>\<open>string\<close>. Free text that the code trims (synchro answers, the werewolf's
  guess) is modelled as a list of UTF-16 code units, which is what a JavaScript string
  is, so that \<open>String.prototype.trim\<close> can be written out in full.
\<close>

type_synonym js_string = "nat list"

definition str :: "string \<Rightarrow> js_string" where
  "str s = map of_char s"

text \<open>ECMAScript \<open>WhiteSpace\<close> and \<open>LineTerminator\<close> code units.\<close>

definition js_whitespace :: "nat \<Rightarrow> bool" where
  "js_whitespace c \<longleftrightarrow>
     c = 9 \<or> c = 10 \<or> c = 11 \<or> c = 12 \<or> c = 13 \<or> c = 32 \<or> c = 160 \<or> c = 5760 \<or>
     (8192 \<le> c \<and> c \<le> 8202) \<or> c = 8232 \<or> c = 8233 \<or> c = 8239 \<or> c = 8287 \<or>
     c = 12288 \<or> c = 65279"

definition trim :: "js_string \<Rightarrow> js_string" where
  "trim s = rev (dropWhile js_whitespace (rev (dropWhile js_whitespace s)))"

text \<open>
  A JavaScript object used as a dictionary with non-numeric string keys: the keys keep
  their insertion order, and assigning to an existing key keeps its position
  (\<open>{...prev, [k]: v}\<close>).
\<close>

type_synonym 'v js_object = "(string \<times> 'v) list"

fun obj_set :: "'v js_object \<Rightarrow> string \<Rightarrow> 'v \<Rightarrow> 'v js_object" where
  "obj_set [] k v = [(k, v)]"
| "obj_set ((k', v') # kvs) k v =
     (if k' = k then (k', v) # kvs else (k', v') # obj_set kvs k v)"

definition obj_keys :: "'v js_object \<Rightarrow> string list" where
  "obj_keys obj = map fst obj"

definition obj_values :: "'v js_object \<Rightarrow> 'v list" where
  "obj_values obj = map snd obj"

text \<open>\<open>new Set(xs)\<close>: the distinct elements in order of first insertion.\<close>

definition set_add :: "'a list \<Rightarrow> 'a \<Rightarrow> 'a list" where
  "set_add s x = (if x \<in> set s then s else s @ [x])"

definition new_Set :: "'a list \<Rightarrow> 'a list" where
  "new_Set xs = foldl set_add [] xs"

text \<open>\<open>Array.prototype.indexOf\<close>: the first index of the element, or \<open>-1\<close>.\<close>

fun indexOf_from :: "int \<Rightarrow> 'a list \<Rightarrow> 'a \<Rightarrow> int" where
  "indexOf_from i [] x = -1"
| "indexOf_from i (y # ys) x = (if y = x then i else indexOf_from (i + 1) ys x)"

definition indexOf :: "'a list \<Rightarrow> 'a \<Rightarrow> int" where
  "indexOf xs x = indexOf_from 0 xs x"

text \<open>\<open>xs.filter((x, index) => p(x, index))\<close>.\<close>

fun filter_indexed :: "int \<Rightarrow> ('a \<Rightarrow> int \<Rightarrow> bool) \<Rightarrow> 'a list \<Rightarrow> 'a list" where
  "filter_indexed i p [] = []"
| "filter_indexed i p (x # xs) =
     (if p x i then x # filter_indexed (i + 1) p xs else filter_indexed (i + 1) p xs)"

section \<open>Ranking game: result analysis (RankingGame.tsx)\<close>

definition ranking_responseValues :: "int js_object \<Rightarrow> int list" where
  "ranking_responseValues responses = obj_values responses"

definition uniqueRanks :: "int js_object \<Rightarrow> int list" where
  "uniqueRanks responses = new_Set (ranking_responseValues responses)"

definition ranking_isSuccess :: "int js_object \<Rightarrow> bool" where
  "ranking_isSuccess responses \<longleftrightarrow>
     length (uniqueRanks responses) = length (ranking_responseValues responses) \<and>
     length (ranking_responseValues responses) > 0"

definition duplicates :: "int js_object \<Rightarrow> int list" where
  "duplicates responses =
     filter_indexed 0
       (\<lambda>rank index. indexOf (ranking_responseValues responses) rank \<noteq> index)
       (ranking_responseValues responses)"

definition duplicateRanks :: "int js_object \<Rightarrow> int list" where
  "duplicateRanks responses = new_Set (duplicates responses)"

section \<open>Store access: responses, exceptions and the read operations\<close>

text \<open>
  Awaiting a supabase query either rejects (the request itself failed) or yields a
  response that is a success carrying \<open>data\<close> or a failure carrying \<open>error\<close> (and
  \<open>data = null\<close>). A TypeScript function that may throw returns \<open>Inl\<close> of the error.
\<close>

datatype 'a postgrest_response = Success (resp_data: 'a) | Failure (resp_error: string)

datatype 'a awaited = Fulfilled 'a | Rejected string

type_synonym 'a throws = "string + 'a"

definition try_catch :: "'a throws \<Rightarrow> (string \<Rightarrow> 'a throws) \<Rightarrow> 'a throws" where
  "try_catch body handler = (case body of Inl e \<Rightarrow> handler e | Inr v \<Rightarrow> Inr v)"

text \<open>
  \<open>const { data, error } = await query; if (error) throw error; return data\<close>, the
  body shared by the single-row reads (\<open>maybeSingle\<close>: \<open>data\<close> is a row or null).
\<close>

definition await_data :: "'a postgrest_response awaited \<Rightarrow> 'a throws" where
  "await_data q =
     (case q of
        Rejected e \<Rightarrow> Inl e
      | Fulfilled (Failure e) \<Rightarrow> Inl e
      | Fulfilled (Success d) \<Rightarrow> Inr d)"

definition query_failed :: "'a postgrest_response awaited \<Rightarrow> bool" where
  "query_failed q = (case q of Rejected e \<Rightarrow> True | Fulfilled (Failure e) \<Rightarrow> True
                     | Fulfilled (Success d) \<Rightarrow> False)"

record GameSession =
  gs_id :: string
  gs_room_id :: string
  gs_game_type :: string
  gs_status :: string
  gs_created_by :: "string option"
  gs_created_at :: nat

record GameQuestion =
  q_id :: string
  q_session_id :: string
  q_question :: js_string
  q_questioner_id :: string
  q_created_at :: nat
  q_is_active :: bool

text \<open>
  The three response tables (\<open>game_responses\<close>, \<open>ranking_responses\<close>,
  \<open>synchro_responses\<close>) differ only in the type of the answer column. The columns
  \<open>id\<close> and \<open>created_at\<close> are assigned by the store and read by no code; they
  are left out.
\<close>

record 'v response_row =
  r_question_id :: string
  r_participant_id :: string
  r_value :: 'v

text \<open>
  \<open>upsert({question_id, participant_id, value}, {onConflict:
  'question_id,participant_id'})\<close> on a response table with its
  \<open>UNIQUE(question_id, participant_id)\<close> constraint.
\<close>

definition upsert_response ::
    "'v response_row list \<Rightarrow> string \<Rightarrow> string \<Rightarrow> 'v \<Rightarrow> 'v response_row list" where
  "upsert_response table questionId participantId v =
     (if \<exists>r\<in>set table. r_question_id r = questionId \<and> r_participant_id r = participantId
      then map (\<lambda>r. if r_question_id r = questionId \<and> r_participant_id r = participantId
                     then r\<lparr>r_value := v\<rparr> else r) table
      else table @ [\<lparr>r_question_id = questionId, r_participant_id = participantId,
                      r_value = v\<rparr>])"

type_synonym GameResponse = "bool response_row"
type_synonym RankingResponse = "int response_row"
type_synonym SynchroResponse = "js_string response_row"

definition getActiveGameSession ::
    "GameSession option postgrest_response awaited \<Rightarrow> GameSession option throws" where
  "getActiveGameSession q = try_catch (await_data q) (\<lambda>error. Inr None)"

text \<open>
  \<open>getActiveQuestions\<close> awaits three queries with \<open>Promise.all\<close> and reads
  \<open>result.data || []\<close> of each without looking at \<open>error\<close>; a rejection of any of
  them is caught and gives three empty lists.
\<close>

definition data_or_empty :: "'a list postgrest_response \<Rightarrow> 'a list" where
  "data_or_empty r = (case r of Success d \<Rightarrow> d | Failure e \<Rightarrow> [])"

definition promise_all3 ::
    "'a awaited \<Rightarrow> 'b awaited \<Rightarrow> 'c awaited \<Rightarrow> ('a \<times> 'b \<times> 'c) throws" where
  "promise_all3 a b c =
     (case a of Rejected e \<Rightarrow> Inl e
      | Fulfilled x \<Rightarrow>
          (case b of Rejected e \<Rightarrow> Inl e
           | Fulfilled y \<Rightarrow>
               (case c of Rejected e \<Rightarrow> Inl e | Fulfilled z \<Rightarrow> Inr (x, y, z))))"

definition getActiveQuestions ::
    "'a list postgrest_response awaited \<Rightarrow> 'b list postgrest_response awaited \<Rightarrow>
     'c list postgrest_response awaited \<Rightarrow> ('a list \<times> 'b list \<times> 'c list) throws" where
  "getActiveQuestions gq rq sq =
     try_catch
       (case promise_all3 gq rq sq of
          Inl e \<Rightarrow> Inl e
        | Inr (gameQuestionsResult, rankingQuestionsResult, synchroQuestionsResult) \<Rightarrow>
            Inr (data_or_empty gameQuestionsResult,
                 data_or_empty rankingQuestionsResult,
                 data_or_empty synchroQuestionsResult))
       (\<lambda>error. Inr ([], [], []))"

text \<open>
  The response cache: key \<open>\<mapsto>\<close> (data, timestamp). An entry younger than
  \<open>CACHE_DURATION\<close> milliseconds is returned without querying the store; \<open>q\<close>
  is what the store query yields when it is issued. The source keeps one cache for the
  three tables under keys with distinct prefixes; here each table has its own cache.
\<close>

type_synonym 'v response_cache = "string \<rightharpoonup> ('v response_row list \<times> int)"

definition CACHE_DURATION :: int where
  "CACHE_DURATION = 2000"

definition cache_fresh :: "'v response_cache \<Rightarrow> string \<Rightarrow> int \<Rightarrow> bool" where
  "cache_fresh responseCache key now =
     (case responseCache key of
        None \<Rightarrow> False
      | Some (cached_data, cached_timestamp) \<Rightarrow> now - cached_timestamp < CACHE_DURATION)"

definition get_responses_cached ::
    "string \<Rightarrow> 'v response_cache \<Rightarrow> int \<Rightarrow> string \<Rightarrow>
     'v response_row list postgrest_response awaited \<Rightarrow>
     ('v response_row list \<times> 'v response_cache) throws" where
  "get_responses_cached prefix responseCache now questionId q =
     (if cache_fresh responseCache (prefix @ questionId) now
      then Inr (fst (the (responseCache (prefix @ questionId))), responseCache)
      else
        try_catch
          (case await_data q of
             Inl error \<Rightarrow> Inl error
           | Inr data \<Rightarrow> Inr (data, responseCache(prefix @ questionId \<mapsto> (data, now))))
          (\<lambda>error. Inr ([], responseCache)))"

definition getQuestionResponses ::
    "bool response_cache \<Rightarrow> int \<Rightarrow> string \<Rightarrow> GameResponse list postgrest_response awaited \<Rightarrow>
     (GameResponse list \<times> bool response_cache) throws" where
  "getQuestionResponses = get_responses_cached ''responses-''"

definition getRankingResponses ::
    "int response_cache \<Rightarrow> int \<Rightarrow> string \<Rightarrow> RankingResponse list postgrest_response awaited \<Rightarrow>
     (RankingResponse list \<times> int response_cache) throws" where
  "getRankingResponses = get_responses_cached ''ranking-responses-''"

definition getSynchroResponses ::
    "js_string response_cache \<Rightarrow> int \<Rightarrow> string \<Rightarrow>
     SynchroResponse list postgrest_response awaited \<Rightarrow>
     (SynchroResponse list \<times> js_string response_cache) throws" where
  "getSynchroResponses = get_responses_cached ''synchro-responses-''"

subsection \<open>Werewolf service reads (werewolfService)\<close>

datatype ww_phase = Setup | Talk | Vote | SuddenDeath | ReverseChance | Finished

datatype ww_role = Citizen | Werewolf

record WerewolfSession =
  ws_id :: string
  ws_room_id :: string
  ws_citizen_topic :: js_string
  ws_werewolf_topic :: js_string
  ws_phase :: ww_phase
  ws_talk_time_seconds :: int
  ws_reverse_mode :: bool

record WerewolfAssignment =
  wa_session_id :: string
  wa_participant_id :: string
  wa_role :: ww_role
  wa_topic :: js_string

record WerewolfVote =
  wv_session_id :: string
  voter_id :: string
  target_id :: string
  vote_round :: int

definition getAssignment ::
    "WerewolfAssignment option postgrest_response awaited \<Rightarrow> WerewolfAssignment option throws" where
  "getAssignment q = try_catch (await_data q) (\<lambda>error. Inr None)"

definition getVotes ::
    "WerewolfVote list postgrest_response awaited \<Rightarrow> WerewolfVote list throws" where
  "getVotes q = try_catch (await_data q) (\<lambda>error. Inr [])"

definition getSession ::
    "WerewolfSession option postgrest_response awaited \<Rightarrow> WerewolfSession option throws" where
  "getSession q = try_catch (await_data q) (\<lambda>error. Inr None)"

definition getActiveSession ::
    "WerewolfSession option postgrest_response awaited \<Rightarrow> WerewolfSession option throws" where
  "getActiveSession q = try_catch (await_data q) (\<lambda>error. Inr None)"

definition getAllAssignments ::
    "WerewolfAssignment list postgrest_response awaited \<Rightarrow> WerewolfAssignment list throws" where
  "getAllAssignments q = try_catch (await_data q) (\<lambda>error. Inr [])"

section \<open>The three prompt-answer game clients\<close>

text \<open>
  A client is the state of one mounted React component: the \<open>GameState\<close> object and
  the other state hooks the handlers read or write. A handler takes the client and the
  outcomes of the I/O it awaits, and returns the new client together with the external
  actions that completed, in order: store writes, broadcasts on a topic, alerts.
  Deferred work (\<open>setTimeout\<close> clean-up of channels, and the re-send of the same
  payload after one second on mobile) is not part of a handler's result.
\<close>

record Participant =
  p_id :: string
  p_nickname :: js_string

datatype send_outcome = Status_ok | Status_other | Send_throws

datatype ('w, 'ev) effect = Store 'w | Send string 'ev | Alert

datatype round_phase = waiting_for_question | questioner_selected | answering | results

fun obj_get :: "'v js_object \<Rightarrow> string \<Rightarrow> 'v option" where
  "obj_get [] k = None"
| "obj_get ((k', v') # kvs) k = (if k' = k then Some v' else obj_get kvs k)"

text \<open>
  \<open>rows.reduce((acc, r) => ({ ...acc, [r.participant_id]: r.response }), {})\<close>
\<close>

definition responseMap_of :: "'v response_row list \<Rightarrow> 'v js_object" where
  "responseMap_of rows = foldl (\<lambda>acc r. obj_set acc (r_participant_id r) (r_value r)) [] rows"

text \<open>
  What a reachable store answers to \<open>select('*').eq('question_id', questionId)\<close> on
  a response table.
\<close>

definition select_responses ::
    "'v response_row list \<Rightarrow> string \<Rightarrow> 'v response_row list postgrest_response awaited" where
  "select_responses table questionId =
     Fulfilled (Success (filter (\<lambda>r. r_question_id r = questionId) table))"

subsection \<open>Survey game (AnonymousSurveyGame)\<close>

record survey_client =
  sv_roomId :: string
  sv_phase :: round_phase
  sv_question :: js_string
  sv_questionId :: string
  sv_responses :: "bool js_object"
  sv_questionerId :: string
  sv_questionerName :: js_string
  sv_sessionId :: string
  sv_currentQuestion :: js_string
  sv_hasAnswered :: bool
  sv_isQuestioner :: bool
  sv_currentParticipant :: "Participant option"
  sv_currentGameSessionId :: string

datatype survey_event =
    questioner_selected_event string js_string
  | question_submitted_event js_string string string js_string string
  | answer_submitted string bool
  | sync_responses "bool js_object"
  | show_results
  | new_round

datatype survey_write = SubmitResponse string string bool

definition survey_channelName :: "string \<Rightarrow> string" where
  "survey_channelName roomId = ''game-events-'' @ roomId"

text \<open>The broadcast listeners registered on \<open>game-events-<roomId>\<close>.\<close>

fun survey_on :: "survey_event \<Rightarrow> survey_client \<Rightarrow> survey_client" where
  "survey_on (questioner_selected_event questionerId questionerName) c =
     (let c1 = c\<lparr>sv_phase := questioner_selected, sv_questionerId := questionerId,
                  sv_questionerName := questionerName\<rparr>
      in case sv_currentParticipant c of
           Some p \<Rightarrow> if questionerId \<noteq> p_id p then c1\<lparr>sv_isQuestioner := False\<rparr> else c1
         | None \<Rightarrow> c1)"
| "survey_on (question_submitted_event question questionId questionerId questionerName sessionId) c =
     c\<lparr>sv_phase := answering, sv_question := question, sv_questionId := questionId,
       sv_questionerId := questionerId, sv_questionerName := questionerName,
       sv_sessionId := sessionId, sv_responses := [],
       sv_currentGameSessionId := sessionId, sv_hasAnswered := False\<rparr>"
| "survey_on (answer_submitted participantId answer) c =
     c\<lparr>sv_responses := obj_set (sv_responses c) participantId answer\<rparr>"
| "survey_on (sync_responses responses) c =
     c\<lparr>sv_responses := responses\<rparr>"
| "survey_on show_results c = c\<lparr>sv_phase := results\<rparr>"
| "survey_on new_round c =
     c\<lparr>sv_phase := waiting_for_question, sv_question := [], sv_questionId := [],
       sv_responses := [], sv_questionerId := [], sv_questionerName := [],
       sv_sessionId := sv_currentGameSessionId c, sv_currentQuestion := [],
       sv_hasAnswered := False, sv_isQuestioner := False\<rparr>"

definition handleAnswer ::
    "survey_client \<Rightarrow> bool \<Rightarrow> bool \<Rightarrow> send_outcome \<Rightarrow>
     survey_client \<times> (survey_write, survey_event) effect list" where
  "handleAnswer c answer submit_ok send =
     (case sv_currentParticipant c of
        None \<Rightarrow> (c, [])
      | Some currentParticipant \<Rightarrow>
          if sv_hasAnswered c then (c, [])
          else if sv_questionId c = [] then (c, [])
          else if \<not> submit_ok then (c\<lparr>sv_hasAnswered := False\<rparr>, [Alert])
          else if send = Send_throws
          then (c\<lparr>sv_hasAnswered := False\<rparr>,
                [Store (SubmitResponse (sv_questionId c) (p_id currentParticipant) answer), Alert])
          else (c\<lparr>sv_hasAnswered := True,
                   sv_responses := obj_set (sv_responses c) (p_id currentParticipant) answer\<rparr>,
                [Store (SubmitResponse (sv_questionId c) (p_id currentParticipant) answer),
                 Send (survey_channelName (sv_roomId c))
                   (answer_submitted (p_id currentParticipant) answer)]))"

text \<open>
  \<open>handleShowResults\<close> of the survey game first re-reads the answers of the current
  question through \<open>getQuestionResponses\<close>, sends them as \<open>sync_responses\<close> on the
  topic \<open>game-events-<roomId>-sync\<close> and replaces the local answer set; then it
  broadcasts \<open>show_results\<close> and enters the results phase.
\<close>

definition survey_handleShowResults ::
    "survey_client \<Rightarrow> bool response_cache \<Rightarrow> int \<Rightarrow>
     GameResponse list postgrest_response awaited \<Rightarrow> send_outcome \<Rightarrow> send_outcome \<Rightarrow>
     survey_client \<times> bool response_cache \<times> (survey_write, survey_event) effect list" where
  "survey_handleShowResults c responseCache now q sync_send show_send =
     (let (c1, cache1, fx1) =
            (if sv_questionId c \<noteq> [] then
               (case getQuestionResponses responseCache now (sv_questionId c) q of
                  Inl error \<Rightarrow> (c, responseCache, [])
                | Inr (responses, cache') \<Rightarrow>
                    let responseMap = responseMap_of responses in
                    if sync_send = Send_throws then (c, cache', [])
                    else (c\<lparr>sv_responses := responseMap\<rparr>, cache',
                          [Send (survey_channelName (sv_roomId c) @ ''-sync'')
                             (sync_responses responseMap)]))
             else (c, responseCache, []))
      in if show_send = Send_throws then (c1, cache1, fx1)
         else (c1\<lparr>sv_phase := results\<rparr>, cache1,
               fx1 @ [Send (survey_channelName (sv_roomId c)) show_results]))"

text \<open>
  The reveal button of the survey game is rendered for every participant in the
  answering phase once a question id is known.
\<close>

definition survey_canShowResults :: "survey_client \<Rightarrow> bool" where
  "survey_canShowResults c \<longleftrightarrow> sv_phase c = answering \<and> sv_questionId c \<noteq> []"

text \<open>The aggregates the component derives from the answer set.\<close>

definition yesCount :: "survey_client \<Rightarrow> nat" where
  "yesCount c = length (filter (\<lambda>v. v) (obj_values (sv_responses c)))"

definition totalResponses :: "survey_client \<Rightarrow> nat" where
  "totalResponses c = length (obj_keys (sv_responses c))"

subsection \<open>Ranking game (RankingGame.tsx)\<close>

record ranking_client =
  rk_roomId :: string
  rk_phase :: round_phase
  rk_question :: js_string
  rk_questionId :: string
  rk_responses :: "int js_object"
  rk_questionerId :: string
  rk_questionerName :: js_string
  rk_sessionId :: string
  rk_currentQuestion :: js_string
  rk_hasAnswered :: bool
  rk_selectedRank :: "int option"
  rk_isQuestioner :: bool
  rk_currentParticipant :: "Participant option"
  rk_currentGameSessionId :: string
  rk_gameParticipants :: "Participant list"

datatype ranking_event =
    ranking_questioner_selected string js_string
  | ranking_question_submitted js_string string string js_string string
  | ranking_answer_submitted string int
  | ranking_show_results
  | ranking_new_round

datatype ranking_write =
    CreateGameSession string string
  | CreateRankingQuestion string js_string string
  | SubmitRankingResponse string string int

definition ranking_channelName :: "string \<Rightarrow> string" where
  "ranking_channelName roomId = ''ranking-game-events-'' @ roomId"

fun ranking_on :: "ranking_event \<Rightarrow> ranking_client \<Rightarrow> ranking_client" where
  "ranking_on (ranking_questioner_selected questionerId questionerName) c =
     (let c1 = c\<lparr>rk_phase := questioner_selected, rk_questionerId := questionerId,
                  rk_questionerName := questionerName\<rparr>
      in case rk_currentParticipant c of
           Some p \<Rightarrow> if questionerId \<noteq> p_id p then c1\<lparr>rk_isQuestioner := False\<rparr> else c1
         | None \<Rightarrow> c1)"
| "ranking_on (ranking_question_submitted question questionId questionerId questionerName sessionId) c =
     c\<lparr>rk_phase := answering, rk_question := question, rk_questionId := questionId,
       rk_questionerId := questionerId, rk_questionerName := questionerName,
       rk_sessionId := sessionId, rk_responses := [],
       rk_currentGameSessionId := sessionId, rk_hasAnswered := False,
       rk_selectedRank := None\<rparr>"
| "ranking_on (ranking_answer_submitted participantId rankChoice) c =
     c\<lparr>rk_responses := obj_set (rk_responses c) participantId rankChoice\<rparr>"
| "ranking_on ranking_show_results c = c\<lparr>rk_phase := results\<rparr>"
| "ranking_on ranking_new_round c =
     c\<lparr>rk_phase := waiting_for_question, rk_question := [], rk_questionId := [],
       rk_responses := [], rk_questionerId := [], rk_questionerName := [],
       rk_sessionId := rk_currentGameSessionId c, rk_currentQuestion := [],
       rk_hasAnswered := False, rk_selectedRank := None, rk_isQuestioner := False\<rparr>"

definition handleSubmitRank ::
    "ranking_client \<Rightarrow> bool \<Rightarrow> send_outcome \<Rightarrow>
     ranking_client \<times> (ranking_write, ranking_event) effect list" where
  "handleSubmitRank c submit_ok send =
     (case (rk_currentParticipant c, rk_selectedRank c) of
        (Some currentParticipant, Some selectedRank) \<Rightarrow>
          if rk_hasAnswered c \<or> rk_questionId c = [] then (c, [])
          else if \<not> submit_ok then (c\<lparr>rk_hasAnswered := False\<rparr>, [Alert])
          else if send = Send_throws
          then (c\<lparr>rk_hasAnswered := False\<rparr>,
                [Store (SubmitRankingResponse (rk_questionId c) (p_id currentParticipant)
                          selectedRank), Alert])
          else (c\<lparr>rk_hasAnswered := True,
                   rk_responses :=
                     obj_set (rk_responses c) (p_id currentParticipant) selectedRank\<rparr>,
                [Store (SubmitRankingResponse (rk_questionId c) (p_id currentParticipant)
                          selectedRank),
                 Send (ranking_channelName (rk_roomId c))
                   (ranking_answer_submitted (p_id currentParticipant) selectedRank)])
      | _ \<Rightarrow> (c, []))"

text \<open>
  The mount effect \<open>fetchGameParticipants\<close>: the participants of the room and the
  local participant, as read from the store.
\<close>

definition ranking_fetchGameParticipants ::
    "ranking_client \<Rightarrow> Participant list \<Rightarrow> Participant option \<Rightarrow> ranking_client" where
  "ranking_fetchGameParticipants c participants current =
     (let c1 = c\<lparr>rk_gameParticipants := participants\<rparr>
      in case current of Some p \<Rightarrow> c1\<lparr>rk_currentParticipant := Some p\<rparr> | None \<Rightarrow> c1)"

definition ranking_handleBecomeQuestioner ::
    "ranking_client \<Rightarrow> send_outcome \<Rightarrow>
     ranking_client \<times> (ranking_write, ranking_event) effect list" where
  "ranking_handleBecomeQuestioner c send =
     (case rk_currentParticipant c of
        None \<Rightarrow> (c, [])
      | Some currentParticipant \<Rightarrow>
          if send = Send_throws then (c, [Alert])
          else (c\<lparr>rk_isQuestioner := True, rk_phase := questioner_selected,
                   rk_questionerId := p_id currentParticipant,
                   rk_questionerName := p_nickname currentParticipant\<rparr>,
                [Send (ranking_channelName (rk_roomId c))
                   (ranking_questioner_selected (p_id currentParticipant)
                      (p_nickname currentParticipant))]))"

text \<open>
  \<open>handleSubmitQuestion\<close>: \<open>new_session\<close> is the id of the session that
  \<open>createGameSession\<close> returns when the client has none (\<open>None\<close> when it throws),
  \<open>created\<close> the id of the question row that \<open>createRankingQuestion\<close> returns.
\<close>

definition ranking_handleSubmitQuestion ::
    "ranking_client \<Rightarrow> string option \<Rightarrow> string option \<Rightarrow> send_outcome \<Rightarrow>
     ranking_client \<times> (ranking_write, ranking_event) effect list" where
  "ranking_handleSubmitQuestion c new_session created send =
     (case rk_currentParticipant c of
        None \<Rightarrow> (c, [])
      | Some currentParticipant \<Rightarrow>
          if trim (rk_currentQuestion c) = [] then (c, [])
          else if rk_currentGameSessionId c = [] \<and> new_session = None then (c, [Alert])
          else
            (let sessionId = (if rk_currentGameSessionId c = [] then the new_session
                              else rk_currentGameSessionId c);
                 c1 = c\<lparr>rk_currentGameSessionId := sessionId\<rparr>;
                 fx0 = (if rk_currentGameSessionId c = []
                        then [Store (CreateGameSession (rk_roomId c) ''ranking'')] else [])
             in case created of
                  None \<Rightarrow> (c1, fx0 @ [Alert])
                | Some questionId \<Rightarrow>
                    let write = Store (CreateRankingQuestion sessionId
                                         (trim (rk_currentQuestion c)) (p_id currentParticipant))
                    in if send = Send_throws then (c1, fx0 @ [write, Alert])
                       else (c1\<lparr>rk_phase := answering,
                                  rk_question := trim (rk_currentQuestion c),
                                  rk_questionId := questionId,
                                  rk_questionerId := p_id currentParticipant,
                                  rk_questionerName := p_nickname currentParticipant,
                                  rk_sessionId := sessionId, rk_responses := [],
                                  rk_hasAnswered := False, rk_selectedRank := None\<rparr>,
                             fx0 @ [write,
                                    Send (ranking_channelName (rk_roomId c))
                                      (ranking_question_submitted (trim (rk_currentQuestion c))
                                         questionId (p_id currentParticipant)
                                         (p_nickname currentParticipant) sessionId)])))"

text \<open>
  The reveal button of the ranking game is rendered in the answering phase under
  \<open>allAnswered && gameState.questionerId === currentParticipant?.id\<close>; nothing else
  calls \<open>handleShowResults\<close>.
\<close>

definition ranking_totalResponses :: "ranking_client \<Rightarrow> nat" where
  "ranking_totalResponses c = length (obj_keys (rk_responses c))"

definition ranking_allAnswered :: "ranking_client \<Rightarrow> bool" where
  "ranking_allAnswered c \<longleftrightarrow> ranking_totalResponses c = length (rk_gameParticipants c)"

definition ranking_canShowResults :: "ranking_client \<Rightarrow> bool" where
  "ranking_canShowResults c \<longleftrightarrow>
     rk_phase c = answering \<and> ranking_allAnswered c \<and>
     (case rk_currentParticipant c of
        None \<Rightarrow> False
      | Some currentParticipant \<Rightarrow> rk_questionerId c = p_id currentParticipant)"

text \<open>
  \<open>handleShowResults\<close> of the ranking game: broadcast \<open>ranking_show_results\<close> and
  enter the results phase. It takes no store reading: the function issues none.
\<close>

definition ranking_handleShowResults ::
    "ranking_client \<Rightarrow> send_outcome \<Rightarrow>
     ranking_client \<times> (ranking_write, ranking_event) effect list" where
  "ranking_handleShowResults c send =
     (if send = Send_throws then (c, [])
      else (c\<lparr>rk_phase := results\<rparr>,
            [Send (ranking_channelName (rk_roomId c)) ranking_show_results]))"

subsection \<open>Synchro game (SynchroGame)\<close>

datatype synchro_phase = sy_waiting_for_question | gm_selected | sy_answering | sy_results

record synchro_client =
  sy_roomId :: string
  sy_phase :: synchro_phase
  sy_question :: js_string
  sy_questionId :: string
  sy_responses :: "js_string js_object"
  sy_gmId :: string
  sy_gmName :: js_string
  sy_sessionId :: string
  sy_currentQuestion :: js_string
  sy_currentAnswer :: js_string
  sy_hasAnswered :: bool
  sy_isGM :: bool
  sy_currentParticipant :: "Participant option"
  sy_currentGameSessionId :: string

datatype synchro_event =
    synchro_gm_selected string js_string
  | synchro_question_submitted js_string string string js_string string
  | synchro_answer_submitted string js_string
  | synchro_show_results
  | synchro_new_round

datatype synchro_write = SubmitSynchroResponse string string js_string

definition synchro_channelName :: "string \<Rightarrow> string" where
  "synchro_channelName roomId = ''synchro-game-events-'' @ roomId"

fun synchro_on :: "synchro_event \<Rightarrow> synchro_client \<Rightarrow> synchro_client" where
  "synchro_on (synchro_gm_selected gmId gmName) c =
     (let c1 = c\<lparr>sy_phase := gm_selected, sy_gmId := gmId, sy_gmName := gmName\<rparr>
      in case sy_currentParticipant c of
           Some p \<Rightarrow> if gmId \<noteq> p_id p then c1\<lparr>sy_isGM := False\<rparr> else c1
         | None \<Rightarrow> c1)"
| "synchro_on (synchro_question_submitted question questionId gmId gmName sessionId) c =
     c\<lparr>sy_phase := sy_answering, sy_question := question, sy_questionId := questionId,
       sy_gmId := gmId, sy_gmName := gmName, sy_sessionId := sessionId, sy_responses := [],
       sy_currentGameSessionId := sessionId, sy_hasAnswered := False,
       sy_currentAnswer := []\<rparr>"
| "synchro_on (synchro_answer_submitted participantId answer) c =
     c\<lparr>sy_responses := obj_set (sy_responses c) participantId answer\<rparr>"
| "synchro_on synchro_show_results c = c\<lparr>sy_phase := sy_results\<rparr>"
| "synchro_on synchro_new_round c =
     c\<lparr>sy_phase := sy_waiting_for_question, sy_question := [], sy_questionId := [],
       sy_responses := [], sy_gmId := [], sy_gmName := [],
       sy_sessionId := sy_currentGameSessionId c, sy_currentQuestion := [],
       sy_currentAnswer := [], sy_hasAnswered := False, sy_isGM := False\<rparr>"

definition handleSubmitAnswer ::
    "synchro_client \<Rightarrow> bool \<Rightarrow> send_outcome \<Rightarrow>
     synchro_client \<times> (synchro_write, synchro_event) effect list" where
  "handleSubmitAnswer c submit_ok send =
     (case sy_currentParticipant c of
        None \<Rightarrow> (c, [])
      | Some currentParticipant \<Rightarrow>
          if sy_hasAnswered c \<or> trim (sy_currentAnswer c) = [] \<or> sy_questionId c = []
          then (c, [])
          else if \<not> submit_ok then (c\<lparr>sy_hasAnswered := False\<rparr>, [Alert])
          else if send = Send_throws
          then (c\<lparr>sy_hasAnswered := False\<rparr>,
                [Store (SubmitSynchroResponse (sy_questionId c) (p_id currentParticipant)
                          (trim (sy_currentAnswer c))), Alert])
          else (c\<lparr>sy_hasAnswered := True,
                   sy_responses := obj_set (sy_responses c) (p_id currentParticipant)
                                     (trim (sy_currentAnswer c))\<rparr>,
                [Store (SubmitSynchroResponse (sy_questionId c) (p_id currentParticipant)
                          (trim (sy_currentAnswer c))),
                 Send (synchro_channelName (sy_roomId c))
                   (synchro_answer_submitted (p_id currentParticipant)
                      (trim (sy_currentAnswer c)))]))"

definition synchro_handleShowResults ::
    "synchro_client \<Rightarrow> send_outcome \<Rightarrow>
     synchro_client \<times> (synchro_write, synchro_event) effect list" where
  "synchro_handleShowResults c send =
     (if send = Send_throws then (c, [])
      else (c\<lparr>sy_phase := sy_results\<rparr>,
            [Send (synchro_channelName (sy_roomId c)) synchro_show_results]))"

text \<open>Result analysis of the synchro game.\<close>

definition uniqueAnswers :: "js_string js_object \<Rightarrow> js_string list" where
  "uniqueAnswers responses = new_Set (obj_values responses)"

definition synchro_isSuccess :: "js_string js_object \<Rightarrow> bool" where
  "synchro_isSuccess responses \<longleftrightarrow>
     length (uniqueAnswers responses) = 1 \<and> length (obj_values responses) > 0"

subsection \<open>Initial clients and broadcast delivery\<close>

text \<open>
  The initial values of the state hooks when a component mounts for a room with a
  session id (\<open>sessionId || ""\<close>), and the step in which the mounted component has
  identified the local participant (\<open>setCurrentParticipant\<close>).
\<close>

definition survey_init :: "string \<Rightarrow> string \<Rightarrow> survey_client" where
  "survey_init roomId sessionId =
     \<lparr>sv_roomId = roomId, sv_phase = waiting_for_question, sv_question = [],
      sv_questionId = [], sv_responses = [], sv_questionerId = [], sv_questionerName = [],
      sv_sessionId = sessionId, sv_currentQuestion = [], sv_hasAnswered = False,
      sv_isQuestioner = False, sv_currentParticipant = None,
      sv_currentGameSessionId = sessionId\<rparr>"

definition ranking_init :: "string \<Rightarrow> string \<Rightarrow> ranking_client" where
  "ranking_init roomId sessionId =
     \<lparr>rk_roomId = roomId, rk_phase = waiting_for_question, rk_question = [],
      rk_questionId = [], rk_responses = [], rk_questionerId = [], rk_questionerName = [],
      rk_sessionId = sessionId, rk_currentQuestion = [], rk_hasAnswered = False,
      rk_selectedRank = None, rk_isQuestioner = False, rk_currentParticipant = None,
      rk_currentGameSessionId = sessionId, rk_gameParticipants = []\<rparr>"

definition synchro_init :: "string \<Rightarrow> string \<Rightarrow> synchro_client" where
  "synchro_init roomId sessionId =
     \<lparr>sy_roomId = roomId, sy_phase = sy_waiting_for_question, sy_question = [],
      sy_questionId = [], sy_responses = [], sy_gmId = [], sy_gmName = [],
      sy_sessionId = sessionId, sy_currentQuestion = [], sy_currentAnswer = [],
      sy_hasAnswered = False, sy_isGM = False, sy_currentParticipant = None,
      sy_currentGameSessionId = sessionId\<rparr>"

text \<open>
  The broadcast channel delivers an event sent on a topic to the listeners subscribed to
  that topic, and to no others; \<open>deliver\<close> applies to a subscribed client the
  broadcasts among the completed actions of some handler run, in order.
\<close>

fun deliver :: "('ev \<Rightarrow> 'c \<Rightarrow> 'c) \<Rightarrow> string \<Rightarrow> ('w, 'ev) effect list \<Rightarrow> 'c \<Rightarrow> 'c" where
  "deliver on_event topic [] c = c"
| "deliver on_event topic (Send t ev # fx) c =
     deliver on_event topic fx (if t = topic then on_event ev c else c)"
| "deliver on_event topic (Store w # fx) c = deliver on_event topic fx c"
| "deliver on_event topic (Alert # fx) c = deliver on_event topic fx c"

text \<open>The store writes among the completed actions, and their effect on the tables.\<close>

fun stores :: "('w, 'ev) effect list \<Rightarrow> 'w list" where
  "stores [] = []"
| "stores (Store w # fx) = w # stores fx"
| "stores (Send t ev # fx) = stores fx"
| "stores (Alert # fx) = stores fx"

fun survey_write_apply :: "survey_write \<Rightarrow> GameResponse list \<Rightarrow> GameResponse list" where
  "survey_write_apply (SubmitResponse questionId participantId response) table =
     upsert_response table questionId participantId response"

fun ranking_write_apply :: "ranking_write \<Rightarrow> RankingResponse list \<Rightarrow> RankingResponse list" where
  "ranking_write_apply (SubmitRankingResponse questionId participantId rankChoice) table =
     upsert_response table questionId participantId rankChoice"
| "ranking_write_apply (CreateGameSession roomId gameType) table = table"
| "ranking_write_apply (CreateRankingQuestion sessionId question questionerId) table = table"

fun synchro_write_apply :: "synchro_write \<Rightarrow> SynchroResponse list \<Rightarrow> SynchroResponse list" where
  "synchro_write_apply (SubmitSynchroResponse questionId participantId answer) table =
     upsert_response table questionId participantId answer"

subsection \<open>Concrete players\<close>

text \<open>
  A participant \<open>p\<close> of room \<open>room\<close> whose component has mounted, identified the
  local participant and received the prompt \<open>q1\<close> of session \<open>s1\<close> from the
  initiator \<open>Q\<close>; in the synchro game the player has typed an answer.
\<close>

definition survey_player :: "string \<Rightarrow> survey_client" where
  "survey_player p =
     survey_on (question_submitted_event (str ''prompt'') ''q1'' ''Q'' (str ''Q'') ''s1'')
       ((survey_init ''room'' ''s1'')
          \<lparr>sv_currentParticipant := Some \<lparr>p_id = p, p_nickname = str p\<rparr>\<rparr>)"

definition synchro_player :: "string \<Rightarrow> js_string \<Rightarrow> synchro_client" where
  "synchro_player p typed =
     (synchro_on (synchro_question_submitted (str ''prompt'') ''q1'' ''Q'' (str ''Q'') ''s1'')
        ((synchro_init ''room'' ''s1'')
           \<lparr>sy_currentParticipant := Some \<lparr>p_id = p, p_nickname = str p\<rparr>\<rparr>))
     \<lparr>sy_currentAnswer := typed\<rparr>"

text \<open>
  A survey round in which \<open>A\<close> answers yes and \<open>B\<close> answers no; both answers are
  persisted. The broadcast of \<open>A\<close>'s answer is dropped, so \<open>B\<close> holds its own
  answer only when it presses the reveal button, and the peer \<open>C\<close> holds only the
  answer of \<open>B\<close>. \<open>survey_reveal_B\<close> is \<open>B\<close>'s run of \<open>handleShowResults\<close>
  at a time when the cache is empty and the store answers; \<open>survey_peer_C_revealed\<close>
  is \<open>C\<close> after the broadcasts of that run.
\<close>

definition survey_table_AB :: "GameResponse list" where
  "survey_table_AB =
     fold survey_write_apply
       (stores (snd (handleAnswer (survey_player ''A'') True True Status_ok) @
                snd (handleAnswer (survey_player ''B'') False True Status_ok))) []"

definition survey_client_B :: survey_client where
  "survey_client_B = fst (handleAnswer (survey_player ''B'') False True Status_ok)"

definition survey_peer_C :: survey_client where
  "survey_peer_C =
     deliver survey_on (survey_channelName ''room'')
       (snd (handleAnswer (survey_player ''B'') False True Status_ok)) (survey_player ''C'')"

definition survey_reveal_B ::
    "survey_client \<times> bool response_cache \<times> (survey_write, survey_event) effect list" where
  "survey_reveal_B =
     survey_handleShowResults survey_client_B Map.empty 0
       (select_responses survey_table_AB ''q1'') Status_ok Status_ok"

definition survey_peer_C_revealed :: survey_client where
  "survey_peer_C_revealed =
     deliver survey_on (survey_channelName ''room'') (snd (snd survey_reveal_B)) survey_peer_C"

text \<open>
  The peer \<open>C\<close> of a survey round after the broadcasts of the runs of
  \<open>handleAnswer\<close> in which \<open>A\<close> answers \<open>a\<close> and \<open>B\<close> answers \<open>b\<close>;
  nobody has pressed the reveal button.
\<close>

definition survey_observer :: "bool \<Rightarrow> bool \<Rightarrow> survey_client" where
  "survey_observer a b =
     deliver survey_on (survey_channelName ''room'')
       (snd (handleAnswer (survey_player ''B'') b True Status_ok))
       (deliver survey_on (survey_channelName ''room'')
          (snd (handleAnswer (survey_player ''A'') a True Status_ok)) (survey_player ''C''))"

text \<open>
  A ranking round of the three participants \<open>Q\<close>, \<open>A\<close> and \<open>B\<close> of room
  \<open>room\<close>, each step a handler run or the delivery of its broadcasts to the other
  clients. \<open>Q\<close> becomes the questioner and submits the prompt, stored as question
  \<open>q1\<close>; \<open>A\<close> and \<open>B\<close> choose rank 1 and \<open>Q\<close> rank 2, and the three answers are
  persisted. \<open>Q\<close> receives the answers of \<open>A\<close> and \<open>B\<close>; \<open>B\<close> receives the
  answer of \<open>Q\<close>, and the broadcast of \<open>A\<close>'s answer to \<open>B\<close> is dropped. Then
  \<open>Q\<close> presses the reveal button and \<open>B\<close> receives the broadcast of that run.
\<close>

definition rk_participants :: "Participant list" where
  "rk_participants =
     [\<lparr>p_id = ''Q'', p_nickname = str ''Q''\<rparr>, \<lparr>p_id = ''A'', p_nickname = str ''A''\<rparr>,
      \<lparr>p_id = ''B'', p_nickname = str ''B''\<rparr>]"

definition rk_mounted :: "string \<Rightarrow> ranking_client" where
  "rk_mounted p =
     ranking_fetchGameParticipants (ranking_init ''room'' ''s1'') rk_participants
       (Some \<lparr>p_id = p, p_nickname = str p\<rparr>)"

definition rk_Q_selected ::
    "ranking_client \<times> (ranking_write, ranking_event) effect list" where
  "rk_Q_selected = ranking_handleBecomeQuestioner (rk_mounted ''Q'') Status_ok"

definition rk_Q_asked ::
    "ranking_client \<times> (ranking_write, ranking_event) effect list" where
  "rk_Q_asked =
     ranking_handleSubmitQuestion ((fst rk_Q_selected)\<lparr>rk_currentQuestion := str ''prompt''\<rparr>)
       None (Some ''q1'') Status_ok"

definition rk_peer_asked :: "string \<Rightarrow> ranking_client" where
  "rk_peer_asked p =
     deliver ranking_on (ranking_channelName ''room'') (snd rk_Q_asked)
       (deliver ranking_on (ranking_channelName ''room'') (snd rk_Q_selected) (rk_mounted p))"

definition rk_A_answered ::
    "ranking_client \<times> (ranking_write, ranking_event) effect list" where
  "rk_A_answered =
     handleSubmitRank ((rk_peer_asked ''A'')\<lparr>rk_selectedRank := Some 1\<rparr>) True Status_ok"

definition rk_B_answered ::
    "ranking_client \<times> (ranking_write, ranking_event) effect list" where
  "rk_B_answered =
     handleSubmitRank ((rk_peer_asked ''B'')\<lparr>rk_selectedRank := Some 1\<rparr>) True Status_ok"

definition rk_Q_answered ::
    "ranking_client \<times> (ranking_write, ranking_event) effect list" where
  "rk_Q_answered =
     handleSubmitRank ((fst rk_Q_asked)\<lparr>rk_selectedRank := Some 2\<rparr>) True Status_ok"

definition rk_table :: "RankingResponse list" where
  "rk_table =
     fold ranking_write_apply
       (stores (snd rk_A_answered @ snd rk_B_answered @ snd rk_Q_answered)) []"

definition rk_Q_complete :: ranking_client where
  "rk_Q_complete =
     deliver ranking_on (ranking_channelName ''room'') (snd rk_B_answered)
       (deliver ranking_on (ranking_channelName ''room'') (snd rk_A_answered)
          (fst rk_Q_answered))"

definition rk_B_partial :: ranking_client where
  "rk_B_partial =
     deliver ranking_on (ranking_channelName ''room'') (snd rk_Q_answered) (fst rk_B_answered)"

definition rk_Q_reveal ::
    "ranking_client \<times> (ranking_write, ranking_event) effect list" where
  "rk_Q_reveal = ranking_handleShowResults rk_Q_complete Status_ok"

definition rk_B_revealed :: ranking_client where
  "rk_B_revealed =
     deliver ranking_on (ranking_channelName ''room'') (snd rk_Q_reveal) rk_B_partial"

section \<open>Deduction game (WerewolfGame.tsx, werewolfService)\<close>

subsection \<open>The vote table and \<open>submitVote\<close>\<close>

text \<open>
  \<open>werewolf_votes\<close> with its constraints \<open>UNIQUE(session_id, voter_id,
  vote_round)\<close> and \<open>CHECK (voter_id != target_id)\<close>; the \<open>upsert\<close> of
  \<open>submitVote\<close> names the unique key as its conflict target. A row that violates the
  check is refused on the insert and on the update path alike.
\<close>

definition same_vote_key :: "WerewolfVote \<Rightarrow> WerewolfVote \<Rightarrow> bool" where
  "same_vote_key a b \<longleftrightarrow>
     wv_session_id a = wv_session_id b \<and> voter_id a = voter_id b \<and> vote_round a = vote_round b"

definition upsert_vote :: "WerewolfVote list \<Rightarrow> WerewolfVote \<Rightarrow> WerewolfVote list throws" where
  "upsert_vote table row =
     (if voter_id row = target_id row
      then Inl ''new row violates check constraint (voter_id != target_id)''
      else if \<exists>r\<in>set table. same_vote_key r row
      then Inr (map (\<lambda>r. if same_vote_key r row then row else r) table)
      else Inr (table @ [row]))"

text \<open>
  \<open>submitVote\<close> returns the stored row or throws the store's error; \<open>request_ok\<close>
  is false when the request fails for a reason outside this table (transport, foreign
  keys).
\<close>

definition submitVote ::
    "WerewolfVote list \<Rightarrow> string \<Rightarrow> string \<Rightarrow> string \<Rightarrow> int \<Rightarrow> bool \<Rightarrow>
     WerewolfVote throws \<times> WerewolfVote list" where
  "submitVote table sessionId voterId targetId voteRound request_ok =
     (let row = \<lparr>wv_session_id = sessionId, voter_id = voterId, target_id = targetId,
                  vote_round = voteRound\<rparr>
      in if \<not> request_ok then (Inl ''request failed'', table)
         else case upsert_vote table row of
                Inl error \<Rightarrow> (Inl error, table)
              | Inr table' \<Rightarrow> (Inr row, table'))"

text \<open>Any sequence of \<open>submitVote\<close> calls, from any clients.\<close>

fun submit_all ::
    "(string \<times> string \<times> string \<times> int \<times> bool) list \<Rightarrow> WerewolfVote list \<Rightarrow> WerewolfVote list" where
  "submit_all [] table = table"
| "submit_all ((sessionId, voterId, targetId, voteRound, request_ok) # reqs) table =
     submit_all reqs (snd (submitVote table sessionId voterId targetId voteRound request_ok))"

subsection \<open>The client\<close>

record game_result =
  gr_winner :: "ww_role option"
  gr_eliminatedPlayer :: "string option"
  gr_werewolfGuess :: "js_string option"
  gr_isCorrectGuess :: bool

record ww_client =
  ww_roomId :: string
  ww_phase :: ww_phase
  ww_session :: "WerewolfSession option"
  ww_assignment :: "WerewolfAssignment option"
  ww_votes :: "string js_object"
  ww_voteRound :: int
  ww_gameResult :: game_result
  ww_currentParticipant :: "Participant option"
  ww_selectedVote :: "string option"
  ww_hasVoted :: bool
  ww_reverseMode :: bool
  ww_werewolfGuess :: js_string
  ww_phaseButtonClicks :: "string list"
  ww_hasClickedPhaseButton :: bool

definition ww_init :: "string \<Rightarrow> ww_client" where
  "ww_init roomId =
     \<lparr>ww_roomId = roomId, ww_phase = Setup, ww_session = None, ww_assignment = None,
      ww_votes = [], ww_voteRound = 1,
      ww_gameResult = \<lparr>gr_winner = None, gr_eliminatedPlayer = None,
                        gr_werewolfGuess = None, gr_isCorrectGuess = False\<rparr>,
      ww_currentParticipant = None, ww_selectedVote = None, ww_hasVoted = False,
      ww_reverseMode = False, ww_werewolfGuess = [], ww_phaseButtonClicks = [],
      ww_hasClickedPhaseButton = False\<rparr>"

datatype ww_event =
    werewolf_phase_change ww_phase
  | werewolf_vote_submitted string string
  | werewolf_phase_button_click string
  | werewolf_game_end game_result

datatype ww_write =
    UpdatePhase string ww_phase
  | SubmitGuess string string js_string

definition ww_channelName :: "string \<Rightarrow> string" where
  "ww_channelName roomId = ''werewolf-game-events-'' @ roomId"

text \<open>
  The broadcast listeners. The listener of \<open>werewolf_phase_button_click\<close> also
  schedules a deferred \<open>handlePhaseChange\<close> once two participants have clicked; the
  deferred call is not part of the listener's state update.
\<close>

fun ww_on :: "ww_event \<Rightarrow> ww_client \<Rightarrow> ww_client" where
  "ww_on (werewolf_phase_change phase) c =
     (let c1 = c\<lparr>ww_phase := phase,
                  ww_votes := (if phase = Vote \<or> phase = SuddenDeath then [] else ww_votes c)\<rparr>;
          c2 = (if phase = Vote \<or> phase = SuddenDeath
                then c1\<lparr>ww_hasVoted := False, ww_selectedVote := None\<rparr> else c1)
      in c2\<lparr>ww_phaseButtonClicks := [], ww_hasClickedPhaseButton := False\<rparr>)"
| "ww_on (werewolf_vote_submitted voterId targetId) c =
     c\<lparr>ww_votes := obj_set (ww_votes c) voterId targetId\<rparr>"
| "ww_on (werewolf_phase_button_click participantId) c =
     c\<lparr>ww_phaseButtonClicks := set_add (ww_phaseButtonClicks c) participantId\<rparr>"
| "ww_on (werewolf_game_end result) c = c\<lparr>ww_phase := Finished, ww_gameResult := result\<rparr>"

text \<open>
  \<open>handlePhaseChange\<close>: persist the phase, then broadcast it; every error is
  swallowed. It does not touch the local state.
\<close>

definition handlePhaseChange ::
    "string \<Rightarrow> string \<Rightarrow> ww_phase \<Rightarrow> bool \<Rightarrow> send_outcome \<Rightarrow> (ww_write, ww_event) effect list" where
  "handlePhaseChange roomId sessionId newPhase update_ok send =
     (if \<not> update_ok then []
      else if send = Send_throws then [Store (UpdatePhase sessionId newPhase)]
      else [Store (UpdatePhase sessionId newPhase),
            Send (ww_channelName roomId) (werewolf_phase_change newPhase)])"

definition handleVote ::
    "ww_client \<Rightarrow> WerewolfVote list \<Rightarrow> string \<Rightarrow> bool \<Rightarrow> send_outcome \<Rightarrow>
     ww_client \<times> WerewolfVote list \<times> (ww_write, ww_event) effect list" where
  "handleVote c table targetId request_ok send =
     (case (ww_currentParticipant c, ww_session c) of
        (Some currentParticipant, Some session) \<Rightarrow>
          if ww_hasVoted c then (c, table, [])
          else
            (case submitVote table (ws_id session) (p_id currentParticipant) targetId
                    (ww_voteRound c) request_ok of
               (Inl error, table') \<Rightarrow> (c, table', [Alert])
             | (Inr row, table') \<Rightarrow>
                 let c1 = c\<lparr>ww_selectedVote := Some targetId, ww_hasVoted := True,
                              ww_votes := obj_set (ww_votes c) (p_id currentParticipant) targetId\<rparr>
                 in if send = Send_throws then (c1, table', [Alert])
                    else (c1, table',
                          [Send (ww_channelName (ww_roomId c))
                             (werewolf_vote_submitted (p_id currentParticipant) targetId)]))
      | _ \<Rightarrow> (c, table, []))"

subsection \<open>Tallying the votes (\<open>handleShowResults\<close>)\<close>

text \<open>
  \<open>votes.forEach(vote => voteCount[vote.target_id] = (voteCount[vote.target_id] || 0) + 1)\<close>
\<close>

definition voteCount_of :: "WerewolfVote list \<Rightarrow> int js_object" where
  "voteCount_of votes =
     foldl (\<lambda>voteCount vote.
              obj_set voteCount (target_id vote)
                ((case obj_get voteCount (target_id vote) of None \<Rightarrow> 0 | Some n \<Rightarrow> n) + 1))
       [] votes"

text \<open>\<open>Math.max(...xs)\<close>; of no arguments it is \<open>-Infinity\<close>, here \<open>None\<close>.\<close>

fun Math_max :: "int list \<Rightarrow> int option" where
  "Math_max [] = None"
| "Math_max (x # xs) = (case Math_max xs of None \<Rightarrow> Some x | Some m \<Rightarrow> Some (max x m))"

definition eliminatedCandidates :: "WerewolfVote list \<Rightarrow> string list" where
  "eliminatedCandidates votes =
     (let voteCount = voteCount_of votes;
          maxVotes = Math_max (obj_values voteCount)
      in filter (\<lambda>candidate. obj_get voteCount candidate = maxVotes) (obj_keys voteCount))"

definition isWerewolfEliminated :: "WerewolfAssignment list \<Rightarrow> string option \<Rightarrow> bool" where
  "isWerewolfEliminated assignments eliminatedId =
     (case eliminatedId of
        None \<Rightarrow> False
      | Some eliminated \<Rightarrow>
          (case find (\<lambda>a. wa_participant_id a = eliminated) assignments of
             None \<Rightarrow> False
           | Some eliminatedAssignment \<Rightarrow> wa_role eliminatedAssignment = Werewolf))"

definition finish_with ::
    "ww_client \<Rightarrow> game_result \<Rightarrow> send_outcome \<Rightarrow> ww_client \<times> (ww_write, ww_event) effect list" where
  "finish_with c result send =
     (c\<lparr>ww_phase := Finished, ww_gameResult := result\<rparr>,
      if send = Send_throws then [Alert]
      else [Send (ww_channelName (ww_roomId c)) (werewolf_game_end result)])"

definition ww_handleShowResults ::
    "ww_client \<Rightarrow> WerewolfVote list postgrest_response awaited \<Rightarrow>
     WerewolfAssignment list postgrest_response awaited \<Rightarrow> bool \<Rightarrow> send_outcome \<Rightarrow>
     ww_client \<times> (ww_write, ww_event) effect list" where
  "ww_handleShowResults c q_votes q_assignments update_ok send =
     (case ww_session c of
        None \<Rightarrow> (c, [])
      | Some session \<Rightarrow>
          (case (getVotes q_votes, getAllAssignments q_assignments) of
             (Inr votes, Inr assignments) \<Rightarrow>
               if length votes = 0 then (c, [Alert])
               else if length (eliminatedCandidates votes) > 1 then
                 (if ww_phase c = SuddenDeath
                  then finish_with c
                         \<lparr>gr_winner = Some Werewolf, gr_eliminatedPlayer = None,
                          gr_werewolfGuess = None, gr_isCorrectGuess = False\<rparr> send
                  else (c\<lparr>ww_voteRound := ww_voteRound c + 1\<rparr>,
                        handlePhaseChange (ww_roomId c) (ws_id session) SuddenDeath update_ok send))
               else
                 (let eliminatedId = (case eliminatedCandidates votes of
                                        [] \<Rightarrow> None | first # rest \<Rightarrow> Some first)
                  in if isWerewolfEliminated assignments eliminatedId \<and> ww_reverseMode c
                     then (c, handlePhaseChange (ww_roomId c) (ws_id session) ReverseChance
                                update_ok send)
                     else finish_with c
                            \<lparr>gr_winner = Some (if isWerewolfEliminated assignments eliminatedId
                                                then Citizen else Werewolf),
                             gr_eliminatedPlayer = eliminatedId,
                             gr_werewolfGuess = None, gr_isCorrectGuess = False\<rparr> send)
           | _ \<Rightarrow> (c, [Alert])))"

subsection \<open>The reverse chance (\<open>handleWerewolfGuess\<close>)\<close>


subsection \<open>Game start, the phase button and the buttons on screen\<close>

text \<open>
  What a reachable store answers to the queries of \<open>getVotes(sessionId, voteRound)\<close>
  and \<open>getAllAssignments(sessionId)\<close>.
\<close>

definition select_votes ::
    "WerewolfVote list \<Rightarrow> string \<Rightarrow> int \<Rightarrow> WerewolfVote list postgrest_response awaited" where
  "select_votes table sessionId voteRound =
     Fulfilled (Success (filter (\<lambda>v. wv_session_id v = sessionId \<and> vote_round v = voteRound)
                           table))"

definition select_assignments ::
    "WerewolfAssignment list \<Rightarrow> string \<Rightarrow> WerewolfAssignment list postgrest_response awaited" where
  "select_assignments table sessionId =
     Fulfilled (Success (filter (\<lambda>a. wa_session_id a = sessionId) table))"

text \<open>
  \<open>handleGameStart\<close>: load the session and the local participant's assignment and
  enter the talk phase.
\<close>

definition handleGameStart ::
    "ww_client \<Rightarrow> WerewolfSession option postgrest_response awaited \<Rightarrow>
     WerewolfAssignment option postgrest_response awaited \<Rightarrow> bool \<Rightarrow> ww_client" where
  "handleGameStart c q_session q_assignment reverseMode =
     (case (getSession q_session, ww_currentParticipant c) of
        (Inr (Some session), Some currentParticipant) \<Rightarrow>
          (case getAssignment q_assignment of
             Inr assignment \<Rightarrow>
               c\<lparr>ww_session := Some session, ww_assignment := assignment, ww_phase := Talk,
                 ww_reverseMode := reverseMode\<rparr>
           | Inl error \<Rightarrow> c)
      | _ \<Rightarrow> c)"

text \<open>
  \<open>handlePhaseButtonClick\<close>: record and broadcast the click; when the click count the
  handler saw plus one reaches two, call \<open>handlePhaseChange\<close> with
  \<open>gameState.phase === "talk" ? "vote" : "vote"\<close>, that is, with \<open>vote\<close>.
\<close>

definition handlePhaseButtonClick ::
    "ww_client \<Rightarrow> send_outcome \<Rightarrow> bool \<Rightarrow> send_outcome \<Rightarrow>
     ww_client \<times> (ww_write, ww_event) effect list" where
  "handlePhaseButtonClick c click_send update_ok send =
     (case ww_currentParticipant c of
        None \<Rightarrow> (c, [])
      | Some currentParticipant \<Rightarrow>
          if ww_hasClickedPhaseButton c then (c, [])
          else
            (let c1 = c\<lparr>ww_hasClickedPhaseButton := True,
                         ww_phaseButtonClicks :=
                           set_add (ww_phaseButtonClicks c) (p_id currentParticipant)\<rparr>;
                 newClickCount = length (ww_phaseButtonClicks c) + 1
             in if click_send = Send_throws then (c1, [])
                else (c1,
                      Send (ww_channelName (ww_roomId c))
                        (werewolf_phase_button_click (p_id currentParticipant)) #
                      (if newClickCount \<ge> 2
                       then (case ww_session c of
                               None \<Rightarrow> []
                             | Some session \<Rightarrow>
                                 handlePhaseChange (ww_roomId c) (ws_id session) Vote
                                   update_ok send)
                       else []))))"

text \<open>
  The buttons on screen. The phase button is rendered in the panel of the phases
  \<open>talk\<close> and \<open>sudden_death\<close> when an assignment is loaded, and is disabled once
  clicked. The vote buttons and the tally button, which is the only caller of
  \<open>handleShowResults\<close>, are rendered in the panel of the phase \<open>vote\<close>; the
  tally button also needs a session.
\<close>

definition ww_canClickPhaseButton :: "ww_client \<Rightarrow> bool" where
  "ww_canClickPhaseButton c \<longleftrightarrow>
     (ww_phase c = Talk \<or> ww_phase c = SuddenDeath) \<and> ww_assignment c \<noteq> None \<and>
     \<not> ww_hasClickedPhaseButton c"

definition ww_canVote :: "ww_client \<Rightarrow> bool" where
  "ww_canVote c \<longleftrightarrow> ww_phase c = Vote \<and> \<not> ww_hasVoted c"

definition ww_canShowResults :: "ww_client \<Rightarrow> bool" where
  "ww_canShowResults c \<longleftrightarrow> ww_phase c = Vote \<and> ww_session c \<noteq> None"


text \<open>
  A press of the tally button against a store that answers: \<open>handleShowResults\<close>
  queries the votes of the client's own session and vote round.
\<close>

definition ww_tally ::
    "ww_client \<Rightarrow> WerewolfVote list \<Rightarrow> WerewolfAssignment list \<Rightarrow>
     ww_client \<times> (ww_write, ww_event) effect list" where
  "ww_tally c votes assignments =
     (case ww_session c of
        None \<Rightarrow> (c, [])
      | Some session \<Rightarrow>
          ww_handleShowResults c (select_votes votes (ws_id session) (ww_voteRound c))
            (select_assignments assignments (ws_id session)) True Status_ok)"

subsection \<open>A concrete deduction game\<close>

text \<open>
  Session \<open>s1\<close> of room \<open>room\<close> with the topics dog (citizens) and cat (werewolf),
  and the client of participant \<open>p\<close> that has loaded this session and is in a given
  phase.
\<close>

definition ww_session1 :: WerewolfSession where
  "ww_session1 =
     \<lparr>ws_id = ''s1'', ws_room_id = ''room'', ws_citizen_topic = str ''dog'',
      ws_werewolf_topic = str ''cat'', ws_phase = Talk, ws_talk_time_seconds = 300,
      ws_reverse_mode = False\<rparr>"

definition ww_player :: "string \<Rightarrow> ww_phase \<Rightarrow> ww_client" where
  "ww_player p phase =
     (ww_init ''room'')
       \<lparr>ww_currentParticipant := Some \<lparr>p_id = p, p_nickname = str p\<rparr>,
        ww_session := Some ww_session1, ww_phase := phase\<rparr>"

text \<open>
  A game of the three participants \<open>A\<close>, \<open>B\<close> (citizens) and \<open>C\<close> (werewolf)
  in session \<open>s1\<close>, each step a handler run or the delivery of its broadcasts to the
  other clients; no step uses the delivery of a broadcast to its own sender.

  \<^item> The three clients mount and start the game (\<open>sd_started\<close>).
  \<^item> Talk: \<open>B\<close> and then \<open>C\<close> click the phase button; the click of \<open>C\<close> is
    the second and issues the change to the vote phase, which \<open>A\<close> and \<open>B\<close> apply.
  \<^item> First vote: \<open>A\<close> votes for \<open>B\<close> and \<open>B\<close> for \<open>A\<close>; \<open>A\<close> presses
    the tally button (\<open>sd_A_tally1\<close>), and \<open>B\<close> and \<open>C\<close> apply its broadcast
    (\<open>sd_B_sudden\<close>, \<open>sd_C_sudden\<close>).
  \<^item> Sudden death: \<open>B\<close> and then \<open>C\<close> click the phase button, and \<open>A\<close> and
    \<open>B\<close> apply the phase change that the click of \<open>C\<close> issues (\<open>sd_A_vote2\<close>,
    \<open>sd_B_vote2\<close>).
  \<^item> Second vote: \<open>A\<close> votes for \<open>B\<close> and \<open>B\<close> for \<open>A\<close> again, and
    \<open>B\<close> presses the tally button (\<open>sd_B_tally2\<close>).
\<close>

definition ww_assignments1 :: "WerewolfAssignment list" where
  "ww_assignments1 =
     [\<lparr>wa_session_id = ''s1'', wa_participant_id = ''A'', wa_role = Citizen,
       wa_topic = str ''dog''\<rparr>,
      \<lparr>wa_session_id = ''s1'', wa_participant_id = ''B'', wa_role = Citizen,
       wa_topic = str ''dog''\<rparr>,
      \<lparr>wa_session_id = ''s1'', wa_participant_id = ''C'', wa_role = Werewolf,
       wa_topic = str ''cat''\<rparr>]"

definition sd_started :: "string \<Rightarrow> ww_client" where
  "sd_started p =
     handleGameStart
       ((ww_init ''room'')\<lparr>ww_currentParticipant := Some \<lparr>p_id = p, p_nickname = str p\<rparr>\<rparr>)
       (Fulfilled (Success (Some ww_session1)))
       (Fulfilled (Success (find (\<lambda>a. wa_participant_id a = p) ww_assignments1))) False"

definition sd_topic :: string where
  "sd_topic = ww_channelName ''room''"

definition sd_B_click1 :: "ww_client \<times> (ww_write, ww_event) effect list" where
  "sd_B_click1 = handlePhaseButtonClick (sd_started ''B'') Status_ok True Status_ok"

definition sd_C_click1 :: "ww_client \<times> (ww_write, ww_event) effect list" where
  "sd_C_click1 =
     handlePhaseButtonClick (deliver ww_on sd_topic (snd sd_B_click1) (sd_started ''C''))
       Status_ok True Status_ok"

definition sd_A_vote1 :: ww_client where
  "sd_A_vote1 =
     deliver ww_on sd_topic (snd sd_C_click1)
       (deliver ww_on sd_topic (snd sd_B_click1) (sd_started ''A''))"

definition sd_B_vote1 :: ww_client where
  "sd_B_vote1 = deliver ww_on sd_topic (snd sd_C_click1) (fst sd_B_click1)"

definition sd_A_voted1 :: "ww_client \<times> WerewolfVote list \<times> (ww_write, ww_event) effect list" where
  "sd_A_voted1 = handleVote sd_A_vote1 [] ''B'' True Status_ok"

definition sd_B_voted1 :: "ww_client \<times> WerewolfVote list \<times> (ww_write, ww_event) effect list" where
  "sd_B_voted1 =
     handleVote (deliver ww_on sd_topic (snd (snd sd_A_voted1)) sd_B_vote1)
       (fst (snd sd_A_voted1)) ''A'' True Status_ok"

definition sd_A_ready1 :: ww_client where
  "sd_A_ready1 = deliver ww_on sd_topic (snd (snd sd_B_voted1)) (fst sd_A_voted1)"

definition sd_A_tally1 :: "ww_client \<times> (ww_write, ww_event) effect list" where
  "sd_A_tally1 = ww_tally sd_A_ready1 (fst (snd sd_B_voted1)) ww_assignments1"

definition sd_B_sudden :: ww_client where
  "sd_B_sudden = deliver ww_on sd_topic (snd sd_A_tally1) (fst sd_B_voted1)"

definition sd_C_sudden :: ww_client where
  "sd_C_sudden = deliver ww_on sd_topic (snd sd_A_tally1) (fst sd_C_click1)"

definition sd_B_click2 :: "ww_client \<times> (ww_write, ww_event) effect list" where
  "sd_B_click2 = handlePhaseButtonClick sd_B_sudden Status_ok True Status_ok"

definition sd_C_click2 :: "ww_client \<times> (ww_write, ww_event) effect list" where
  "sd_C_click2 =
     handlePhaseButtonClick (deliver ww_on sd_topic (snd sd_B_click2) sd_C_sudden)
       Status_ok True Status_ok"

definition sd_A_vote2 :: ww_client where
  "sd_A_vote2 =
     deliver ww_on sd_topic (snd sd_C_click2)
       (deliver ww_on sd_topic (snd sd_B_click2) (fst sd_A_tally1))"

definition sd_B_vote2 :: ww_client where
  "sd_B_vote2 = deliver ww_on sd_topic (snd sd_C_click2) (fst sd_B_click2)"

definition sd_A_voted2 :: "ww_client \<times> WerewolfVote list \<times> (ww_write, ww_event) effect list" where
  "sd_A_voted2 = handleVote sd_A_vote2 (fst (snd sd_B_voted1)) ''B'' True Status_ok"

definition sd_B_voted2 :: "ww_client \<times> WerewolfVote list \<times> (ww_write, ww_event) effect list" where
  "sd_B_voted2 =
     handleVote (deliver ww_on sd_topic (snd (snd sd_A_voted2)) sd_B_vote2)
       (fst (snd sd_A_voted2)) ''A'' True Status_ok"

definition sd_B_tally2 :: "ww_client \<times> (ww_write, ww_event) effect list" where
  "sd_B_tally2 = ww_tally (fst sd_B_voted2) (fst (snd sd_B_voted2)) ww_assignments1"











section \<open>The concurrency guard (\<open>withGameLock\<close>, gameService.ts)\<close>

text \<open>
  One client process runs a single event loop. An operation passed to the guard is an
  asynchronous function (identified here by a number): it starts when it is called and
  its promise settles in a later turn of the loop. The guard's state is the two module
  maps; \<open>running\<close>, \<open>timers\<close> and \<open>finished\<close> record what the event loop holds:
  the operations in flight with their key and whether they were started by the
  lock-holding path of \<open>withGameLock\<close> (whose \<open>finally\<close> block runs when they
  settle) or by a dequeued wrapper, the pending \<open>setTimeout(..., 0)\<close> callbacks in
  order, and the operations that have settled.
\<close>

record lock_state =
  gameOperationLocks :: "string \<rightharpoonup> bool"
  gameOperationQueues :: "string \<rightharpoonup> nat list"
  running :: "(nat \<times> string \<times> bool) list"
  timers :: "(nat \<times> string) list"
  finished :: "nat list"

definition lock_init :: lock_state where
  "lock_init = \<lparr>gameOperationLocks = Map.empty, gameOperationQueues = Map.empty,
                 running = [], timers = [], finished = []\<rparr>"

datatype lock_event =
    Call string nat
  | Settle nat
  | Timer

text \<open>
  \<open>Call key op\<close>: the synchronous part of \<open>withGameLock(key, op)\<close>. If the lock is
  set the wrapper of \<open>op\<close> is pushed on the key's queue; otherwise the lock is set and
  \<open>op\<close> is started.

  \<open>Settle op\<close>: the promise of the running operation \<open>op\<close> settles. If the
  lock-holding path started it, the \<open>finally\<close> block runs: the lock is deleted, and
  the first queued wrapper, if any, is shifted off the queue and scheduled with
  \<open>setTimeout\<close> (else the queue entry is deleted). If a wrapper started it, the
  wrapper resolves the caller's promise and does nothing else.

  \<open>Timer\<close>: the first pending timer fires and its wrapper starts the operation.
\<close>

fun lock_step :: "lock_event \<Rightarrow> lock_state \<Rightarrow> lock_state" where
  "lock_step (Call key op) s =
     (if gameOperationLocks s key = Some True
      then s\<lparr>gameOperationQueues :=
               (gameOperationQueues s)
                 (key \<mapsto> (case gameOperationQueues s key of None \<Rightarrow> [] | Some queue \<Rightarrow> queue)
                            @ [op])\<rparr>
      else s\<lparr>gameOperationLocks := (gameOperationLocks s)(key \<mapsto> True),
             running := running s @ [(op, key, True)]\<rparr>)"
| "lock_step (Settle op) s =
     (case find (\<lambda>(op', key, holder). op' = op) (running s) of
        None \<Rightarrow> s
      | Some (op', key, holder) \<Rightarrow>
          let s1 = s\<lparr>running := filter (\<lambda>(op', key, holder). op' \<noteq> op) (running s),
                     finished := finished s @ [op]\<rparr>
          in if holder then
               (let s2 = s1\<lparr>gameOperationLocks := (gameOperationLocks s1)(key := None)\<rparr>
                in case gameOperationQueues s2 key of
                     Some (nextOperation # queue) \<Rightarrow>
                       s2\<lparr>gameOperationQueues := (gameOperationQueues s2)(key \<mapsto> queue),
                          timers := timers s2 @ [(nextOperation, key)]\<rparr>
                   | _ \<Rightarrow> s2\<lparr>gameOperationQueues := (gameOperationQueues s2)(key := None)\<rparr>)
             else s1)"
| "lock_step Timer s =
     (case timers s of
        [] \<Rightarrow> s
      | (op, key) # rest \<Rightarrow> s\<lparr>timers := rest, running := running s @ [(op, key, False)]\<rparr>)"

definition lock_run :: "lock_event list \<Rightarrow> lock_state \<Rightarrow> lock_state" where
  "lock_run events s = fold lock_step events s"

definition running_on :: "string \<Rightarrow> lock_state \<Rightarrow> nat list" where
  "running_on key s = map fst (filter (\<lambda>(op, key', holder). key' = key) (running s))"

section \<open>Joining a room (\<open>roomService.joinRoom\<close>)\<close>

text \<open>
  The tables \<open>rooms\<close> and \<open>participants\<close> with the constraints of the schema:
  \<open>participants.session_token\<close> is unique, \<open>(room_id, nickname)\<close> is unique, and
  \<open>room_id\<close> references \<open>rooms\<close>.
\<close>

record Room =
  rm_id :: string
  rm_name :: string
  rm_is_active :: bool

record participant_row =
  pt_id :: string
  pt_room_id :: string
  pt_nickname :: js_string
  pt_session_token :: string
  pt_is_online :: bool
  pt_joined_at :: int
  pt_last_seen :: int

record room_store =
  rooms :: "Room list"
  participants :: "participant_row list"

text \<open>\<open>rooms.upsert({id, name, is_active: true}, {onConflict: "id"})\<close>\<close>

definition upsert_room :: "Room list \<Rightarrow> string \<Rightarrow> Room list" where
  "upsert_room table roomId =
     (let row = \<lparr>rm_id = roomId, rm_name = roomId, rm_is_active = True\<rparr>
      in if \<exists>r\<in>set table. rm_id r = roomId
         then map (\<lambda>r. if rm_id r = roomId then row else r) table
         else table @ [row])"

text \<open>
  \<open>participants.delete().eq("room_id", roomId).eq("nickname", nickname)
  .neq("session_token", sessionToken)\<close>
\<close>

definition delete_same_nickname ::
    "participant_row list \<Rightarrow> string \<Rightarrow> js_string \<Rightarrow> string \<Rightarrow> participant_row list" where
  "delete_same_nickname table roomId nickname sessionToken =
     filter (\<lambda>r. \<not> (pt_room_id r = roomId \<and> pt_nickname r = nickname \<and>
                      pt_session_token r \<noteq> sessionToken)) table"

text \<open>
  \<open>participants.upsert({room_id, nickname, session_token, is_online: true, joined_at,
  last_seen}, {onConflict: "session_token", ignoreDuplicates: false})\<close>: a row with the
  same session token is updated in place, otherwise a row with a new id is inserted; in
  both cases a different row with the same \<open>(room_id, nickname)\<close>, or a missing room,
  is an error.
\<close>

definition upsert_participant ::
    "room_store \<Rightarrow> string \<Rightarrow> js_string \<Rightarrow> string \<Rightarrow> int \<Rightarrow> string \<Rightarrow>
     (participant_row list \<times> participant_row) throws" where
  "upsert_participant store roomId nickname sessionToken now new_id =
     (if \<not> (\<exists>r\<in>set (rooms store). rm_id r = roomId)
      then Inl ''violates foreign key constraint (room_id)''
      else if \<exists>r\<in>set (participants store).
                 pt_session_token r \<noteq> sessionToken \<and> pt_room_id r = roomId \<and>
                 pt_nickname r = nickname
      then Inl ''duplicate key value violates unique constraint (room_id, nickname)''
      else
        (case find (\<lambda>r. pt_session_token r = sessionToken) (participants store) of
           Some old \<Rightarrow>
             let data = old\<lparr>pt_room_id := roomId, pt_nickname := nickname, pt_is_online := True,
                             pt_joined_at := now, pt_last_seen := now\<rparr>
             in Inr (map (\<lambda>r. if pt_session_token r = sessionToken then data else r)
                       (participants store), data)
         | None \<Rightarrow>
             let data = \<lparr>pt_id = new_id, pt_room_id = roomId, pt_nickname = nickname,
                         pt_session_token = sessionToken, pt_is_online = True,
                         pt_joined_at = now, pt_last_seen = now\<rparr>
             in Inr (participants store @ [data], data)))"

text \<open>
  What one attempt meets: how each of the three store requests ends (it reaches the
  store, it is answered with an error that is not one of the constraints above, or the
  awaited promise rejects), how the two broadcasts end, the clock, and the id the store
  gives a new row.
\<close>

datatype request_outcome = Reaches | Error_response | Rejects

record attempt_io =
  io_room :: request_outcome
  io_delete :: request_outcome
  io_upsert :: request_outcome
  io_send1 :: send_outcome
  io_send2 :: send_outcome
  io_now :: int
  io_new_id :: string

datatype room_event =
    participant_joined participant_row
  | participant_update_joined participant_row

text \<open>
  The body of the \<open>try\<close> block of \<open>attemptJoinRoom\<close>. (The copy of the joined
  row that \<open>setCurrentParticipant\<close> puts in the browser's local storage is the
  returned row.)
\<close>

definition join_once ::
    "room_store \<Rightarrow> string \<Rightarrow> js_string \<Rightarrow> string \<Rightarrow> attempt_io \<Rightarrow>
     participant_row throws \<times> room_store \<times> (unit, room_event) effect list" where
  "join_once store roomId nickname sessionToken aio =
     (if io_room aio \<noteq> Reaches then (Inl ''room upsert failed'', store, [])
      else
        let store1 = store\<lparr>rooms := upsert_room (rooms store) roomId\<rparr> in
        if io_delete aio = Rejects then (Inl ''delete failed'', store1, [])
        else
          let store2 = (if io_delete aio = Reaches
                        then store1\<lparr>participants :=
                               delete_same_nickname (participants store1) roomId nickname
                                 sessionToken\<rparr>
                        else store1)
          in if io_upsert aio \<noteq> Reaches then (Inl ''participant upsert failed'', store2, [])
             else
               (case upsert_participant store2 roomId nickname sessionToken (io_now aio)
                       (io_new_id aio) of
                  Inl error \<Rightarrow> (Inl error, store2, [])
                | Inr (table, data) \<Rightarrow>
                    let store3 = store2\<lparr>participants := table\<rparr> in
                    if io_send1 aio = Send_throws then (Inl ''send failed'', store3, [])
                    else if io_send2 aio = Send_throws
                    then (Inl ''send failed'', store3,
                          [Send (''room-updates-'' @ roomId) (participant_joined data)])
                    else (Inr data, store3,
                          [Send (''room-updates-'' @ roomId) (participant_joined data),
                           Send (''participants-'' @ roomId) (participant_update_joined data)])))"

text \<open>
  \<open>attemptJoinRoom\<close> retries after any error while \<open>retryCount < maxRetries - 1\<close>;
  attempt number \<open>retryCount\<close> meets \<open>io retryCount\<close>.
\<close>

function attemptJoinRoom ::
    "room_store \<Rightarrow> string \<Rightarrow> js_string \<Rightarrow> string \<Rightarrow> nat \<Rightarrow> (nat \<Rightarrow> attempt_io) \<Rightarrow> nat \<Rightarrow>
     participant_row throws \<times> room_store \<times> (unit, room_event) effect list" where
  "attemptJoinRoom store roomId nickname sessionToken maxRetries io retryCount =
     (let attempt = join_once store roomId nickname sessionToken (io retryCount) in
      case fst attempt of
        Inr data \<Rightarrow> attempt
      | Inl error \<Rightarrow>
          if retryCount < maxRetries - 1
          then (let later = attemptJoinRoom (fst (snd attempt)) roomId nickname sessionToken
                              maxRetries io (retryCount + 1)
                in (fst later, fst (snd later), snd (snd attempt) @ snd (snd later)))
          else attempt)"
  by pat_completeness auto
termination
  by (relation "measure (\<lambda>(store, roomId, nickname, sessionToken, maxRetries, io, retryCount).
                           maxRetries - retryCount)") auto

declare attemptJoinRoom.simps [simp del]

definition joinRoom ::
    "room_store \<Rightarrow> string \<Rightarrow> js_string \<Rightarrow> string \<Rightarrow> bool \<Rightarrow> (nat \<Rightarrow> attempt_io) \<Rightarrow>
     participant_row throws \<times> room_store \<times> (unit, room_event) effect list" where
  "joinRoom store roomId nickname sessionToken isMobile io =
     (let maxRetries = (if isMobile then 5 else 3);
          outcome = attemptJoinRoom store roomId nickname sessionToken maxRetries io 0
      in case fst outcome of
           Inr data \<Rightarrow> outcome
         | Inl error \<Rightarrow> (Inl (''join failed: '' @ error), snd outcome))"

text \<open>
  A room \<open>r\<close> in which the nickname alice is held by the session \<open>t-old\<close>, and a
  network on which every request and broadcast succeeds.
\<close>

definition room_with_alice :: room_store where
  "room_with_alice =
     \<lparr>rooms = [\<lparr>rm_id = ''r'', rm_name = ''r'', rm_is_active = True\<rparr>],
      participants =
        [\<lparr>pt_id = ''p1'', pt_room_id = ''r'', pt_nickname = str ''alice'',
          pt_session_token = ''t-old'', pt_is_online = True, pt_joined_at = 1,
          pt_last_seen = 2\<rparr>]\<rparr>"

definition io_all_ok :: "nat \<Rightarrow> attempt_io" where
  "io_all_ok retryCount =
     \<lparr>io_room = Reaches, io_delete = Reaches, io_upsert = Reaches, io_send1 = Status_ok,
      io_send2 = Status_ok, io_now = 5, io_new_id = ''p2''\<rparr>"

text \<open>An attempt on which every request reaches the store and both broadcasts are sent.\<close>

definition all_ok :: "attempt_io \<Rightarrow> bool" where
  "all_ok aio \<longleftrightarrow>
     io_room aio = Reaches \<and> io_delete aio = Reaches \<and> io_upsert aio = Reaches \<and>
     io_send1 aio \<noteq> Send_throws \<and> io_send2 aio \<noteq> Send_throws"

section \<open>Properties\<close>

subsection \<open>JavaScript helpers\<close>

lemma foldl_set_add_set: "set (foldl set_add acc xs) = set acc \<union> set xs"
  by (induction xs arbitrary: acc) (auto simp: set_add_def)

lemma foldl_set_add_distinct: "distinct acc \<Longrightarrow> distinct (foldl set_add acc xs)"
  by (induction xs arbitrary: acc) (auto simp: set_add_def)

lemma set_new_Set: "set (new_Set xs) = set xs"
  by (simp add: new_Set_def foldl_set_add_set)

lemma distinct_new_Set: "distinct (new_Set xs)"
  by (simp add: new_Set_def foldl_set_add_distinct)

lemma length_new_Set: "length (new_Set xs) = card (set xs)"
  using distinct_card [OF distinct_new_Set, of xs] by (simp add: set_new_Set)

lemma new_Set_full_iff: "length (new_Set xs) = length xs \<longleftrightarrow> distinct xs"
  by (auto simp: length_new_Set card_distinct distinct_card)

subsection \<open>Survey game\<close>

lemma survey_player_simps:
  "sv_phase (survey_player p) = answering"
  "sv_responses (survey_player p) = []"
  "sv_questionId (survey_player p) = ''q1''"
  "sv_roomId (survey_player p) = ''room''"
  "sv_hasAnswered (survey_player p) = False"
  "sv_currentParticipant (survey_player p) = Some \<lparr>p_id = p, p_nickname = str p\<rparr>"
  by (simp_all add: survey_player_def survey_init_def)

subsection \<open>Synchro game\<close>

lemma new_Set_singleton_iff:
  "xs \<noteq> [] \<Longrightarrow> length (new_Set xs) = 1 \<longleftrightarrow> (\<forall>a\<in>set xs. \<forall>b\<in>set xs. a = b)"
proof -
  assume ne: "xs \<noteq> []"
  then obtain x where x: "x \<in> set xs" by (cases xs) auto
  show ?thesis
  proof
    assume "length (new_Set xs) = 1"
    then have "card (set xs) = 1" by (simp add: length_new_Set)
    then obtain y where "set xs = {y}" by (auto simp: card_1_singleton_iff)
    then show "\<forall>a\<in>set xs. \<forall>b\<in>set xs. a = b" by simp
  next
    assume "\<forall>a\<in>set xs. \<forall>b\<in>set xs. a = b"
    with x have "set xs = {x}" by auto
    then show "length (new_Set xs) = 1" by (simp add: length_new_Set)
  qed
qed

lemma str_apple:
  "str ''apple'' = [97, 112, 112, 108, 101]"
  "str ''Apple'' = [65, 112, 112, 108, 101]"
  "str ''apple '' = [97, 112, 112, 108, 101, 32]"
  by (simp_all add: str_def)

lemma trim_apple:
  "trim [97, 112, 112, 108, 101] = [97, 112, 112, 108, 101]"
  "trim [97, 112, 112, 108, 101, 32] = [97, 112, 112, 108, 101]"
  by (simp_all add: trim_def js_whitespace_def)

lemma synchro_player_submit:
  "trim typed \<noteq> [] \<Longrightarrow>
   handleSubmitAnswer (synchro_player p typed) True Status_ok =
     ((synchro_player p typed)\<lparr>sy_hasAnswered := True, sy_responses := [(p, trim typed)]\<rparr>,
      [Store (SubmitSynchroResponse ''q1'' p (trim typed)),
       Send ''synchro-game-events-room'' (synchro_answer_submitted p (trim typed))])"
  by (simp add: handleSubmitAnswer_def synchro_player_def synchro_init_def synchro_channelName_def)

text \<open>
  Claim C5, as the code has it. For every non-empty answer set of a synchro round the
  result is a success exactly when all values of the set are identical, compared exactly
  (case and inner whitespace matter). The value that \<open>handleSubmitAnswer\<close> stores,
  broadcasts and enters in the local answer set is the typed answer with leading and
  trailing whitespace removed, whatever the outcome of the store write and the broadcast.
\<close>

theorem synchro_success_iff_identical:
  "(responses \<noteq> [] \<longrightarrow>
      (synchro_isSuccess responses \<longleftrightarrow>
         (\<forall>a\<in>set (obj_values responses). \<forall>b\<in>set (obj_values responses). a = b))) \<and>
   (handleSubmitAnswer c submit_ok send = (c', fx) \<longrightarrow>
      (\<forall>qid pid v. Store (SubmitSynchroResponse qid pid v) \<in> set fx \<longrightarrow>
         v = trim (sy_currentAnswer c)) \<and>
      (\<forall>t pid v. Send t (synchro_answer_submitted pid v) \<in> set fx \<longrightarrow>
         v = trim (sy_currentAnswer c)) \<and>
      (sy_responses c' = sy_responses c \<or>
       (\<exists>pid. sy_responses c' = obj_set (sy_responses c) pid (trim (sy_currentAnswer c)))))"
proof -
  have a: "responses \<noteq> [] \<longrightarrow>
      (synchro_isSuccess responses \<longleftrightarrow>
         (\<forall>a\<in>set (obj_values responses). \<forall>b\<in>set (obj_values responses). a = b))"
  proof
    assume "responses \<noteq> []"
    then have ne: "obj_values responses \<noteq> []" by (simp add: obj_values_def)
    show "synchro_isSuccess responses \<longleftrightarrow>
         (\<forall>a\<in>set (obj_values responses). \<forall>b\<in>set (obj_values responses). a = b)"
      using ne new_Set_singleton_iff [OF ne]
      by (simp add: synchro_isSuccess_def uniqueAnswers_def)
  qed
  have b: "handleSubmitAnswer c submit_ok send = (c', fx) \<longrightarrow>
      (\<forall>qid pid v. Store (SubmitSynchroResponse qid pid v) \<in> set fx \<longrightarrow>
         v = trim (sy_currentAnswer c)) \<and>
      (\<forall>t pid v. Send t (synchro_answer_submitted pid v) \<in> set fx \<longrightarrow>
         v = trim (sy_currentAnswer c)) \<and>
      (sy_responses c' = sy_responses c \<or>
       (\<exists>pid. sy_responses c' = obj_set (sy_responses c) pid (trim (sy_currentAnswer c))))"
    by (auto simp: handleSubmitAnswer_def split: option.splits if_splits)
  from a b show ?thesis by blast
qed

theorem synchro_success_iff_identical_witness:
  "[(''A'', str ''apple''), (''B'', str ''Apple'')] \<noteq> [] \<and>
   \<not> synchro_isSuccess [(''A'', str ''apple''), (''B'', str ''Apple'')] \<and>
   synchro_isSuccess [(''A'', str ''apple''), (''B'', str ''apple''), (''C'', str ''apple'')] \<and>
   Store (SubmitSynchroResponse ''q1'' ''B'' (str ''apple''))
     \<in> set (snd (handleSubmitAnswer (synchro_player ''B'' (str ''apple '')) True Status_ok)) \<and>
   str ''apple'' = trim (sy_currentAnswer (synchro_player ''B'' (str ''apple '')))"
proof -
  let ?c = "synchro_player ''B'' (str ''apple '')"
  have run: "handleSubmitAnswer ?c True Status_ok =
      (fst (handleSubmitAnswer ?c True Status_ok), snd (handleSubmitAnswer ?c True Status_ok))"
    by simp
  have mem: "Store (SubmitSynchroResponse ''q1'' ''B'' (str ''apple''))
     \<in> set (snd (handleSubmitAnswer ?c True Status_ok))"
    by (simp add: synchro_player_submit str_apple trim_apple)
  have ne2: "[(''A'', str ''apple''), (''B'', str ''Apple'')] \<noteq> []" by simp
  have ne3: "[(''A'', str ''apple''), (''B'', str ''apple''), (''C'', str ''apple'')] \<noteq> []"
    by simp
  from synchro_success_iff_identical
         [of "[(''A'', str ''apple''), (''B'', str ''Apple'')]" ?c True Status_ok
             "fst (handleSubmitAnswer ?c True Status_ok)"
             "snd (handleSubmitAnswer ?c True Status_ok)"] run mem
  have fail: "\<not> synchro_isSuccess [(''A'', str ''apple''), (''B'', str ''Apple'')]"
    and stored: "str ''apple'' = trim (sy_currentAnswer ?c)"
    by (auto simp: obj_values_def str_apple)
  from synchro_success_iff_identical
         [of "[(''A'', str ''apple''), (''B'', str ''apple''), (''C'', str ''apple'')]"
             ?c True Status_ok
             "fst (handleSubmitAnswer ?c True Status_ok)"
             "snd (handleSubmitAnswer ?c True Status_ok)"]
  have ok: "synchro_isSuccess [(''A'', str ''apple''), (''B'', str ''apple''), (''C'', str ''apple'')]"
    by (simp add: obj_values_def)
  from ne2 fail ok mem stored show ?thesis by simp
qed

text \<open>
  Claim C5 as stated does not hold of the submitted texts: a participant who types
  \<open>apple\<close> and one who types \<open>apple\<close> followed by a space submit different
  texts, and the round is a success.
\<close>

theorem synchro_whitespace_counterexample:
  "str ''apple '' \<noteq> str ''apple'' \<and>
   synchro_isSuccess
     (sy_responses
        (deliver synchro_on (synchro_channelName ''room'')
           (snd (handleSubmitAnswer (synchro_player ''B'' (str ''apple '')) True Status_ok))
           (fst (handleSubmitAnswer (synchro_player ''A'' (str ''apple'')) True Status_ok))))"
  by (simp add: synchro_player_submit str_apple trim_apple synchro_channelName_def
      synchro_isSuccess_def uniqueAnswers_def obj_values_def new_Set_def set_add_def)

subsection \<open>Reveal\<close>

lemma rk_mounted_simps:
  "rk_roomId (rk_mounted p) = ''room''"
  "rk_phase (rk_mounted p) = waiting_for_question"
  "rk_questionId (rk_mounted p) = []"
  "rk_responses (rk_mounted p) = []"
  "rk_hasAnswered (rk_mounted p) = False"
  "rk_selectedRank (rk_mounted p) = None"
  "rk_currentQuestion (rk_mounted p) = []"
  "rk_currentParticipant (rk_mounted p) = Some \<lparr>p_id = p, p_nickname = str p\<rparr>"
  "rk_currentGameSessionId (rk_mounted p) = ''s1''"
  "rk_gameParticipants (rk_mounted p) = rk_participants"
  by (simp_all add: rk_mounted_def ranking_fetchGameParticipants_def ranking_init_def)

lemma str_prompt: "trim (str ''prompt'') = str ''prompt''" "str ''prompt'' \<noteq> []"
  by (simp_all add: str_def trim_def js_whitespace_def)

lemma rk_topic: "ranking_channelName ''room'' = ''ranking-game-events-room''"
  by (simp add: ranking_channelName_def)

lemma rk_Q_selected_eq:
  "rk_Q_selected =
     ((rk_mounted ''Q'')\<lparr>rk_isQuestioner := True, rk_phase := questioner_selected,
         rk_questionerId := ''Q'', rk_questionerName := str ''Q''\<rparr>,
      [Send ''ranking-game-events-room'' (ranking_questioner_selected ''Q'' (str ''Q''))])"
  by (simp add: rk_Q_selected_def ranking_handleBecomeQuestioner_def rk_mounted_simps rk_topic)

lemma rk_Q_asked_eq:
  "rk_Q_asked =
     ((rk_mounted ''Q'')\<lparr>rk_isQuestioner := True, rk_questionerId := ''Q'',
         rk_questionerName := str ''Q'', rk_currentQuestion := str ''prompt'',
         rk_phase := answering, rk_question := str ''prompt'', rk_questionId := ''q1'',
         rk_sessionId := ''s1'', rk_responses := [], rk_hasAnswered := False,
         rk_selectedRank := None\<rparr>,
      [Store (CreateRankingQuestion ''s1'' (str ''prompt'') ''Q''),
       Send ''ranking-game-events-room''
         (ranking_question_submitted (str ''prompt'') ''q1'' ''Q'' (str ''Q'') ''s1'')])"
  by (simp add: rk_Q_asked_def rk_Q_selected_eq ranking_handleSubmitQuestion_def
      rk_mounted_simps rk_topic str_prompt Let_def)

lemma rk_peer_asked_eq:
  "p \<noteq> ''Q'' \<Longrightarrow>
   rk_peer_asked p =
     (rk_mounted p)\<lparr>rk_isQuestioner := False, rk_phase := answering,
        rk_question := str ''prompt'', rk_questionId := ''q1'', rk_questionerId := ''Q'',
        rk_questionerName := str ''Q'', rk_sessionId := ''s1'', rk_responses := [],
        rk_currentGameSessionId := ''s1'', rk_hasAnswered := False, rk_selectedRank := None\<rparr>"
  by (simp add: rk_peer_asked_def rk_Q_asked_eq rk_Q_selected_eq rk_mounted_simps rk_topic
      Let_def)

lemma rk_peer_answered:
  "p \<noteq> ''Q'' \<Longrightarrow>
   handleSubmitRank ((rk_peer_asked p)\<lparr>rk_selectedRank := Some r\<rparr>) True Status_ok =
     ((rk_peer_asked p)\<lparr>rk_selectedRank := Some r, rk_hasAnswered := True,
         rk_responses := [(p, r)]\<rparr>,
      [Store (SubmitRankingResponse ''q1'' p r),
       Send ''ranking-game-events-room'' (ranking_answer_submitted p r)])"
  by (simp add: handleSubmitRank_def rk_peer_asked_eq rk_mounted_simps rk_topic)

lemma rk_Q_answered_eq:
  "rk_Q_answered =
     ((fst rk_Q_asked)\<lparr>rk_selectedRank := Some 2, rk_hasAnswered := True,
         rk_responses := [(''Q'', 2)]\<rparr>,
      [Store (SubmitRankingResponse ''q1'' ''Q'' 2),
       Send ''ranking-game-events-room'' (ranking_answer_submitted ''Q'' 2)])"
  by (simp add: rk_Q_answered_def handleSubmitRank_def rk_Q_asked_eq rk_mounted_simps rk_topic)

lemma rk_table_eq:
  "rk_table =
     [\<lparr>r_question_id = ''q1'', r_participant_id = ''A'', r_value = 1\<rparr>,
      \<lparr>r_question_id = ''q1'', r_participant_id = ''B'', r_value = 1\<rparr>,
      \<lparr>r_question_id = ''q1'', r_participant_id = ''Q'', r_value = 2\<rparr>]"
  by (simp add: rk_table_def rk_A_answered_def rk_B_answered_def rk_peer_answered
      rk_Q_answered_eq upsert_response_def)

lemma rk_Q_complete_eq:
  "rk_Q_complete =
     (fst rk_Q_asked)\<lparr>rk_selectedRank := Some 2, rk_hasAnswered := True,
        rk_responses := [(''Q'', 2), (''A'', 1), (''B'', 1)]\<rparr>"
  by (simp add: rk_Q_complete_def rk_A_answered_def rk_B_answered_def rk_peer_answered
      rk_Q_answered_eq rk_topic)

lemma rk_B_partial_eq:
  "rk_B_partial =
     (rk_peer_asked ''B'')\<lparr>rk_selectedRank := Some 1, rk_hasAnswered := True,
        rk_responses := [(''B'', 1), (''Q'', 2)]\<rparr>"
  by (simp add: rk_B_partial_def rk_B_answered_def rk_peer_answered rk_Q_answered_eq rk_topic)

lemma rk_Q_can_reveal: "ranking_canShowResults rk_Q_complete"
  by (simp add: rk_Q_complete_eq rk_Q_asked_eq ranking_canShowResults_def
      ranking_allAnswered_def ranking_totalResponses_def obj_keys_def rk_mounted_simps
      rk_participants_def)

lemma rk_Q_reveal_eq:
  "rk_Q_reveal =
     (rk_Q_complete\<lparr>rk_phase := results\<rparr>,
      [Send ''ranking-game-events-room'' ranking_show_results])"
  by (simp add: rk_Q_reveal_def ranking_handleShowResults_def rk_topic rk_Q_complete_eq
      rk_Q_asked_eq rk_mounted_simps)

lemma rk_B_revealed_eq: "rk_B_revealed = rk_B_partial\<lparr>rk_phase := results\<rparr>"
  by (simp add: rk_B_revealed_def rk_Q_reveal_eq rk_topic)


lemma survey_player_answer:
  "handleAnswer (survey_player p) a True Status_ok =
     ((survey_player p)\<lparr>sv_hasAnswered := True, sv_responses := [(p, a)]\<rparr>,
      [Store (SubmitResponse ''q1'' p a),
       Send ''game-events-room'' (answer_submitted p a)])"
  by (simp add: handleAnswer_def survey_player_simps survey_channelName_def)

lemma survey_table_AB_eq:
  "survey_table_AB =
     [\<lparr>r_question_id = ''q1'', r_participant_id = ''A'', r_value = True\<rparr>,
      \<lparr>r_question_id = ''q1'', r_participant_id = ''B'', r_value = False\<rparr>]"
  by (simp add: survey_table_AB_def survey_player_answer upsert_response_def)

lemma survey_reveal_B_eq:
  "survey_reveal_B =
     ((survey_player ''B'')\<lparr>sv_hasAnswered := True,
         sv_responses := [(''A'', True), (''B'', False)], sv_phase := results\<rparr>,
      [''responses-q1'' \<mapsto> (survey_table_AB, 0)],
      [Send ''game-events-room-sync'' (sync_responses [(''A'', True), (''B'', False)]),
       Send ''game-events-room'' show_results])"
proof -
  have sel: "select_responses survey_table_AB ''q1'' = Fulfilled (Success survey_table_AB)"
    by (simp add: select_responses_def survey_table_AB_eq)
  have sm: "responseMap_of survey_table_AB = [(''A'', True), (''B'', False)]"
    by (simp add: survey_table_AB_eq responseMap_of_def)
  show ?thesis
    unfolding survey_reveal_B_def sel
    by (simp add: survey_handleShowResults_def survey_client_B_def survey_player_answer
        getQuestionResponses_def get_responses_cached_def cache_fresh_def await_data_def
        try_catch_def sm survey_player_simps Let_def survey_channelName_def)
qed

lemma survey_peer_C_eq:
  "survey_peer_C = (survey_player ''C'')\<lparr>sv_responses := [(''B'', False)]\<rparr>"
  by (simp add: survey_peer_C_def survey_player_answer survey_channelName_def
      survey_player_simps)

lemma survey_peer_C_revealed_eq:
  "survey_peer_C_revealed =
     (survey_player ''C'')\<lparr>sv_responses := [(''B'', False)], sv_phase := results\<rparr>"
  by (simp add: survey_peer_C_revealed_def survey_reveal_B_eq survey_peer_C_eq
      survey_channelName_def)

text \<open>
  Claim C1, evaluated on two rounds in which every answer is persisted and the broadcast
  of \<open>A\<close>'s answer does not reach one peer.

  Ranking game: the questioner \<open>Q\<close> holds all three answers, so its reveal button is
  shown, and presses it. \<open>handleShowResults\<close> reads nothing from the store and
  broadcasts \<open>ranking_show_results\<close> with an empty payload. The peer \<open>B\<close>, which
  missed the answer of \<open>A\<close>, enters the results phase with its local set: the
  persisted answers collide on rank 1 (a failure, which is what \<open>Q\<close> displays), and
  \<open>B\<close> displays a success from which the answer of \<open>A\<close> is missing.

  Survey game: \<open>B\<close> presses the reveal button. \<open>handleShowResults\<close> re-reads the
  store and \<open>B\<close> itself displays both answers, but the re-read set is sent on the topic
  \<open>game-events-room-sync\<close>, to which no listener is subscribed; the peer \<open>C\<close>
  enters the results phase with its local set, from which the answer of \<open>A\<close> is
  missing.
\<close>

theorem reveal_shows_local_sets:
  "ranking_canShowResults rk_Q_complete \<and>
   snd rk_Q_reveal = [Send ''ranking-game-events-room'' ranking_show_results] \<and>
   responseMap_of rk_table = [(''A'', 1), (''B'', 1), (''Q'', 2)] \<and>
   \<not> ranking_isSuccess (responseMap_of rk_table) \<and>
   rk_phase rk_B_revealed = results \<and>
   rk_responses rk_B_revealed = [(''B'', 1), (''Q'', 2)] \<and>
   ranking_isSuccess (rk_responses rk_B_revealed) \<and>
   rk_responses (fst rk_Q_reveal) = [(''Q'', 2), (''A'', 1), (''B'', 1)] \<and>
   survey_canShowResults survey_client_B \<and>
   responseMap_of survey_table_AB = [(''A'', True), (''B'', False)] \<and>
   sv_responses (fst survey_reveal_B) = [(''A'', True), (''B'', False)] \<and>
   snd (snd survey_reveal_B) =
     [Send ''game-events-room-sync'' (sync_responses [(''A'', True), (''B'', False)]),
      Send ''game-events-room'' show_results] \<and>
   sv_phase survey_peer_C_revealed = results \<and>
   sv_responses survey_peer_C_revealed = [(''B'', False)]"
proof -
  have rm: "responseMap_of rk_table = [(''A'', 1), (''B'', 1), (''Q'', 2)]"
    by (simp add: rk_table_eq responseMap_of_def)
  have nsucc: "\<not> ranking_isSuccess [(''A'', 1), (''B'', 1), (''Q'', 2)]"
    by (simp add: ranking_isSuccess_def uniqueRanks_def ranking_responseValues_def
        obj_values_def new_Set_def set_add_def)
  have succ: "ranking_isSuccess [(''B'', 1), (''Q'', 2)]"
    by (simp add: ranking_isSuccess_def uniqueRanks_def ranking_responseValues_def
        obj_values_def new_Set_def set_add_def)
  have bp: "rk_phase rk_B_revealed = results"
    "rk_responses rk_B_revealed = [(''B'', 1), (''Q'', 2)]"
    by (simp_all add: rk_B_revealed_eq rk_B_partial_eq)
  have qr: "rk_responses (fst rk_Q_reveal) = [(''Q'', 2), (''A'', 1), (''B'', 1)]"
    "snd rk_Q_reveal = [Send ''ranking-game-events-room'' ranking_show_results]"
    by (simp_all add: rk_Q_reveal_eq rk_Q_complete_eq)
  have sc: "survey_canShowResults survey_client_B"
    by (simp add: survey_canShowResults_def survey_client_B_def survey_player_answer
        survey_player_simps)
  have sm: "responseMap_of survey_table_AB = [(''A'', True), (''B'', False)]"
    by (simp add: survey_table_AB_eq responseMap_of_def)
  have sr: "sv_responses (fst survey_reveal_B) = [(''A'', True), (''B'', False)]"
    "snd (snd survey_reveal_B) =
       [Send ''game-events-room-sync'' (sync_responses [(''A'', True), (''B'', False)]),
        Send ''game-events-room'' show_results]"
    by (simp_all add: survey_reveal_B_eq)
  have sp: "sv_phase survey_peer_C_revealed = results"
    "sv_responses survey_peer_C_revealed = [(''B'', False)]"
    by (simp_all add: survey_peer_C_revealed_eq)
  show ?thesis
    unfolding rm bp qr sr sp sm using rk_Q_can_reveal nsucc succ sc by simp
qed

subsection \<open>Survey game: who answered what\<close>

lemma survey_observer_eq:
  "survey_observer a b = (survey_player ''C'')\<lparr>sv_responses := [(''A'', a), (''B'', b)]\<rparr>"
  by (simp add: survey_observer_def survey_player_answer survey_channelName_def
      survey_player_simps)

text \<open>
  Claim C6, evaluated before any reveal. The broadcast that \<open>handleAnswer\<close> sends for
  \<open>A\<close> carries the pair of \<open>A\<close>'s id and \<open>A\<close>'s answer. The peer \<open>C\<close> that has
  applied the broadcasts of \<open>A\<close> and \<open>B\<close> is in the answering phase and its state
  records who answered yes: the round in which \<open>A\<close> says yes and \<open>B\<close> no and the
  round in which \<open>A\<close> says no and \<open>B\<close> yes have the same aggregates (one yes of
  two answers) and leave \<open>C\<close> in different states. The client that presses the reveal
  button sends the map from participant id to answer as \<open>sync_responses\<close> before it
  sends \<open>show_results\<close>.
\<close>

theorem survey_identity_exposed_before_reveal:
  "snd (handleAnswer (survey_player ''A'') True True Status_ok) =
     [Store (SubmitResponse ''q1'' ''A'' True),
      Send ''game-events-room'' (answer_submitted ''A'' True)] \<and>
   sv_phase (survey_observer True False) = answering \<and>
   sv_phase (survey_observer False True) = answering \<and>
   yesCount (survey_observer True False) = 1 \<and>
   yesCount (survey_observer False True) = 1 \<and>
   totalResponses (survey_observer True False) = 2 \<and>
   totalResponses (survey_observer False True) = 2 \<and>
   survey_observer True False \<noteq> survey_observer False True \<and>
   obj_get (sv_responses (survey_observer True False)) ''A'' = Some True \<and>
   obj_get (sv_responses (survey_observer False True)) ''A'' = Some False \<and>
   sv_phase survey_client_B = answering \<and>
   snd (snd survey_reveal_B) =
     [Send ''game-events-room-sync'' (sync_responses [(''A'', True), (''B'', False)]),
      Send ''game-events-room'' show_results]"
proof -
  have fx: "snd (handleAnswer (survey_player ''A'') True True Status_ok) =
     [Store (SubmitResponse ''q1'' ''A'' True),
      Send ''game-events-room'' (answer_submitted ''A'' True)]"
    by (simp add: survey_player_answer)
  have ph: "sv_phase (survey_observer a b) = answering" for a b
    by (simp add: survey_observer_eq survey_player_simps)
  have rs: "sv_responses (survey_observer a b) = [(''A'', a), (''B'', b)]" for a b
    by (simp add: survey_observer_eq)
  have agg: "yesCount (survey_observer True False) = 1"
    "yesCount (survey_observer False True) = 1"
    "totalResponses (survey_observer True False) = 2"
    "totalResponses (survey_observer False True) = 2"
    by (simp_all add: yesCount_def totalResponses_def rs obj_values_def obj_keys_def)
  have "sv_responses (survey_observer True False) \<noteq> sv_responses (survey_observer False True)"
    by (simp add: rs)
  then have ne: "survey_observer True False \<noteq> survey_observer False True"
    by auto
  have who: "obj_get (sv_responses (survey_observer True False)) ''A'' = Some True"
    "obj_get (sv_responses (survey_observer False True)) ''A'' = Some False"
    by (simp_all add: rs)
  have pb: "sv_phase survey_client_B = answering"
    by (simp add: survey_client_B_def survey_player_answer survey_player_simps)
  have sy: "snd (snd survey_reveal_B) =
     [Send ''game-events-room-sync'' (sync_responses [(''A'', True), (''B'', False)]),
      Send ''game-events-room'' show_results]"
    by (simp add: survey_reveal_B_eq)
  from fx ph agg ne who pb sy show ?thesis by simp
qed

subsection \<open>Ranking game\<close>

lemma indexOf_from_mem:
  "x \<in> set pre \<Longrightarrow> indexOf_from i (pre @ ys) x = indexOf_from i pre x"
  by (induction pre arbitrary: i) auto

lemma indexOf_from_bounds:
  "x \<in> set pre \<Longrightarrow> i \<le> indexOf_from i pre x \<and> indexOf_from i pre x < i + int (length pre)"
proof (induction pre arbitrary: i)
  case Nil
  then show ?case by simp
next
  case (Cons a pre)
  show ?case
  proof (cases "a = x")
    case True
    then show ?thesis by simp
  next
    case False
    with Cons.prems have "x \<in> set pre" by simp
    from Cons.IH [OF this, of "i + 1"] False show ?thesis by simp
  qed
qed

lemma indexOf_from_notmem:
  "x \<notin> set pre \<Longrightarrow> indexOf_from i (pre @ ys) x = indexOf_from (i + int (length pre)) ys x"
  by (induction pre arbitrary: i) (auto simp: algebra_simps)

lemma indexOf_at_boundary:
  "indexOf (pre @ x # xs) x \<noteq> int (length pre) \<longleftrightarrow> x \<in> set pre"
proof (cases "x \<in> set pre")
  case True
  then show ?thesis
    using indexOf_from_bounds [of x pre 0] by (simp add: indexOf_def indexOf_from_mem)
next
  case False
  then show ?thesis by (simp add: indexOf_def indexOf_from_notmem)
qed

lemma set_filter_indexed_dups:
  "set (filter_indexed (int (length pre)) (\<lambda>r idx. indexOf (pre @ xs) r \<noteq> idx) xs)
     = {y \<in> set xs. y \<in> set pre \<or> 1 < count_list xs y}"
proof (induction xs arbitrary: pre)
  case Nil
  then show ?case by simp
next
  case (Cons x xs)
  have eq: "pre @ x # xs = (pre @ [x]) @ xs" by simp
  have len: "int (length pre) + 1 = int (length (pre @ [x]))" by simp
  have IH: "set (filter_indexed (int (length pre) + 1) (\<lambda>r idx. indexOf (pre @ x # xs) r \<noteq> idx) xs)
     = {y \<in> set xs. y \<in> set (pre @ [x]) \<or> 1 < count_list xs y}"
    unfolding eq len by (rule Cons.IH)
  have pos: "\<And>y. y \<in> set xs \<longleftrightarrow> 0 < count_list xs y"
    by (metis count_list_0_iff gr0I less_numeral_extra(3))
  let ?rest = "filter_indexed (int (length pre) + 1) (\<lambda>r idx. indexOf (pre @ x # xs) r \<noteq> idx) xs"
  have head: "set (filter_indexed (int (length pre)) (\<lambda>r idx. indexOf (pre @ x # xs) r \<noteq> idx) (x # xs))
      = (if x \<in> set pre then insert x (set ?rest) else set ?rest)"
    by (simp add: indexOf_at_boundary)
  show ?case
  proof (rule set_eqI)
    fix y
    show "y \<in> set (filter_indexed (int (length pre)) (\<lambda>r idx. indexOf (pre @ x # xs) r \<noteq> idx) (x # xs))
       \<longleftrightarrow> y \<in> {y \<in> set (x # xs). y \<in> set pre \<or> 1 < count_list (x # xs) y}"
    proof (cases "y = x")
      case True
      then show ?thesis unfolding head IH using pos [of x] by (simp split: if_splits)
    next
      case False
      then show ?thesis unfolding head IH by (simp split: if_splits)
    qed
  qed
qed

lemma set_duplicates: "set (duplicates r) = {v. 1 < count_list (ranking_responseValues r) v}"
proof -
  have "\<And>v. 1 < count_list (ranking_responseValues r) v \<Longrightarrow> v \<in> set (ranking_responseValues r)"
    by (metis count_list_0_iff not_less_zero)
  then show ?thesis
    using set_filter_indexed_dups [of "[]" "ranking_responseValues r"]
    by (simp add: duplicates_def) blast
qed

text \<open>
  Claim C4. For every non-empty answer set of a ranking round, the computed result is a
  success exactly when the submitted ranks are pairwise distinct; and when it is not a
  success, \<open>duplicateRanks\<close> lists, without repetition, exactly the rank values
  chosen by more than one participant.
\<close>

theorem ranking_success_iff_distinct:
  assumes "responses \<noteq> []"
  shows "(ranking_isSuccess responses \<longleftrightarrow> distinct (ranking_responseValues responses)) \<and>
         (\<not> ranking_isSuccess responses \<longrightarrow>
            distinct (duplicateRanks responses) \<and>
            set (duplicateRanks responses) =
              {v. 1 < count_list (ranking_responseValues responses) v})"
proof -
  from assms have "0 < length (ranking_responseValues responses)"
    by (simp add: ranking_responseValues_def obj_values_def)
  then have "ranking_isSuccess responses \<longleftrightarrow> distinct (ranking_responseValues responses)"
    by (simp add: ranking_isSuccess_def uniqueRanks_def new_Set_full_iff)
  moreover have "distinct (duplicateRanks responses)"
    by (simp add: duplicateRanks_def distinct_new_Set)
  moreover have "set (duplicateRanks responses) =
      {v. 1 < count_list (ranking_responseValues responses) v}"
    by (simp add: duplicateRanks_def set_new_Set set_duplicates)
  ultimately show ?thesis by simp
qed

theorem ranking_success_iff_distinct_witness:
  "[(''a'', 1), (''b'', 2), (''c'', 2)] \<noteq> ([] :: int js_object) \<and>
   \<not> ranking_isSuccess [(''a'', 1), (''b'', 2), (''c'', 2)] \<and>
   set (duplicateRanks [(''a'', 1), (''b'', 2), (''c'', 2)]) = {v. 1 < count_list [1, 2, 2] v} \<and>
   duplicateRanks [(''a'', 1), (''b'', 2), (''c'', 2)] = [2] \<and>
   ranking_isSuccess [(''a'', 1), (''b'', 2), (''c'', 3)]"
proof -
  have ne: "[(''a'', 1), (''b'', 2), (''c'', 2)] \<noteq> ([] :: int js_object)" by simp
  have ne3: "[(''a'', 1), (''b'', 2), (''c'', 3)] \<noteq> ([] :: int js_object)" by simp
  have vals: "ranking_responseValues [(''a'', 1), (''b'', 2), (''c'', 2)] = [1, 2, 2]"
    by (simp add: ranking_responseValues_def obj_values_def)
  have vals3: "ranking_responseValues [(''a'', 1), (''b'', 2), (''c'', 3)] = [1, 2, 3]"
    by (simp add: ranking_responseValues_def obj_values_def)
  have dr: "duplicateRanks [(''a'', 1), (''b'', 2), (''c'', 2)] = [2]"
    by (simp add: duplicateRanks_def duplicates_def vals new_Set_def set_add_def indexOf_def)
  show ?thesis
    using ranking_success_iff_distinct [OF ne] ranking_success_iff_distinct [OF ne3]
    by (simp add: vals vals3 dr)
qed

subsection \<open>Read operations of the services\<close>

lemma await_data_failed: "query_failed q \<Longrightarrow> \<exists>e. await_data q = Inl e"
  by (auto simp: query_failed_def await_data_def split: awaited.splits postgrest_response.splits)

lemma try_catch_total: "(\<And>e. \<exists>v. h e = Inr v) \<Longrightarrow> \<exists>v. try_catch b h = Inr v"
  by (cases b) (auto simp: try_catch_def)

lemma try_catch_await_failed:
  "query_failed q \<Longrightarrow> try_catch (await_data q) (\<lambda>error. Inr d) = Inr d"
  using await_data_failed [of q] by (auto simp: try_catch_def)

lemma get_responses_cached_total:
  "\<exists>v c. get_responses_cached prefix cache now qid q = Inr (v, c)"
  by (cases "await_data q") (auto simp: get_responses_cached_def try_catch_def)

lemma get_responses_cached_failed:
  "\<not> cache_fresh cache (prefix @ qid) now \<Longrightarrow> query_failed q \<Longrightarrow>
   get_responses_cached prefix cache now qid q = Inr ([], cache)"
  using await_data_failed [of q] by (auto simp: get_responses_cached_def try_catch_def)

lemma getActiveQuestions_total: "\<exists>v. getActiveQuestions gq rq sq = Inr v"
  by (cases "promise_all3 gq rq sq") (auto simp: getActiveQuestions_def try_catch_def)

lemma getActiveQuestions_failed:
  "getActiveQuestions gq rq sq = Inr (a, b, c) \<Longrightarrow>
   (query_failed gq \<longrightarrow> a = []) \<and> (query_failed rq \<longrightarrow> b = []) \<and> (query_failed sq \<longrightarrow> c = [])"
  by (auto simp: getActiveQuestions_def try_catch_def promise_all3_def query_failed_def data_or_empty_def
      split: awaited.splits postgrest_response.splits)

text \<open>
  Claim C9. None of the read operations \<open>getActiveGameSession\<close>,
  \<open>getQuestionResponses\<close>, \<open>getRankingResponses\<close>, \<open>getSynchroResponses\<close>,
  \<open>getActiveQuestions\<close>, \<open>getVotes\<close>, \<open>getAssignment\<close>,
  \<open>getAllAssignments\<close>, \<open>getSession\<close>, \<open>getActiveSession\<close> throws, whatever
  the store query yields; when the query fails (it rejects or answers with an error) a
  single-row read returns null and a multi-row read returns the empty list (for
  \<open>getActiveQuestions\<close>, the list of each failed query is empty). The cached reads
  issue the query only when the cache holds no fresh entry.
\<close>

theorem read_operations_never_throw:
  "(\<exists>v. getActiveGameSession q1 = Inr v) \<and> (query_failed q1 \<longrightarrow> getActiveGameSession q1 = Inr None) \<and>
   (\<exists>v c. getQuestionResponses cache2 now qid q2 = Inr (v, c)) \<and>
   (\<not> cache_fresh cache2 (''responses-'' @ qid) now \<and> query_failed q2 \<longrightarrow>
      getQuestionResponses cache2 now qid q2 = Inr ([], cache2)) \<and>
   (\<exists>v c. getRankingResponses cache3 now qid q3 = Inr (v, c)) \<and>
   (\<not> cache_fresh cache3 (''ranking-responses-'' @ qid) now \<and> query_failed q3 \<longrightarrow>
      getRankingResponses cache3 now qid q3 = Inr ([], cache3)) \<and>
   (\<exists>v c. getSynchroResponses cache4 now qid q4 = Inr (v, c)) \<and>
   (\<not> cache_fresh cache4 (''synchro-responses-'' @ qid) now \<and> query_failed q4 \<longrightarrow>
      getSynchroResponses cache4 now qid q4 = Inr ([], cache4)) \<and>
   (\<exists>a b c. getActiveQuestions gq rq sq = Inr (a, b, c) \<and>
      (query_failed gq \<longrightarrow> a = []) \<and> (query_failed rq \<longrightarrow> b = []) \<and>
      (query_failed sq \<longrightarrow> c = [])) \<and>
   (\<exists>v. getVotes q6 = Inr v) \<and> (query_failed q6 \<longrightarrow> getVotes q6 = Inr []) \<and>
   (\<exists>v. getAssignment q7 = Inr v) \<and> (query_failed q7 \<longrightarrow> getAssignment q7 = Inr None) \<and>
   (\<exists>v. getAllAssignments q8 = Inr v) \<and> (query_failed q8 \<longrightarrow> getAllAssignments q8 = Inr []) \<and>
   (\<exists>v. getSession q9 = Inr v) \<and> (query_failed q9 \<longrightarrow> getSession q9 = Inr None) \<and>
   (\<exists>v. getActiveSession q10 = Inr v) \<and> (query_failed q10 \<longrightarrow> getActiveSession q10 = Inr None)"
proof -
  have aq: "\<exists>a b c. getActiveQuestions gq rq sq = Inr (a, b, c) \<and>
      (query_failed gq \<longrightarrow> a = []) \<and> (query_failed rq \<longrightarrow> b = []) \<and>
      (query_failed sq \<longrightarrow> c = [])"
  proof -
    obtain a b c where "getActiveQuestions gq rq sq = Inr (a, b, c)"
      using getActiveQuestions_total [of gq rq sq] by (metis prod_cases3)
    then show ?thesis
      using getActiveQuestions_failed [of gq rq sq a b c] by simp
  qed
  show ?thesis
    unfolding getActiveGameSession_def getVotes_def getAssignment_def getAllAssignments_def
      getSession_def getActiveSession_def getQuestionResponses_def getRankingResponses_def
      getSynchroResponses_def
    using aq
    by (simp add: try_catch_total try_catch_await_failed get_responses_cached_total
        get_responses_cached_failed)
qed

theorem read_operations_never_throw_witness:
  "query_failed (Rejected ''offline'' :: GameSession option postgrest_response awaited) \<and>
   getActiveGameSession (Rejected ''offline'') = Inr None \<and>
   getQuestionResponses Map.empty 0 ''q'' (Fulfilled (Failure ''denied'')) = Inr ([], Map.empty) \<and>
   getRankingResponses Map.empty 0 ''q'' (Rejected ''offline'') = Inr ([], Map.empty) \<and>
   getSynchroResponses Map.empty 0 ''q'' (Rejected ''offline'') = Inr ([], Map.empty) \<and>
   getVotes (Fulfilled (Failure ''denied'')) = Inr [] \<and>
   getAssignment (Rejected ''offline'') = Inr None \<and>
   getAllAssignments (Rejected ''offline'') = Inr [] \<and>
   getSession (Rejected ''offline'') = Inr None \<and>
   getActiveSession (Fulfilled (Failure ''denied'')) = Inr None"
proof -
  have f1: "query_failed (Rejected ''offline'')"
    by (simp add: query_failed_def)
  have f2: "query_failed (Fulfilled (Failure ''denied''))"
    by (simp add: query_failed_def)
  have nf: "\<not> cache_fresh Map.empty k 0" for k
    by (simp add: cache_fresh_def)
  note inst = read_operations_never_throw [of "Rejected ''offline''" Map.empty 0 "''q''"
      "Fulfilled (Failure ''denied'')" Map.empty "Rejected ''offline''" Map.empty
      "Rejected ''offline''" "Rejected ''offline''" "Rejected ''offline''" "Rejected ''offline''"
      "Fulfilled (Failure ''denied'')" "Rejected ''offline''" "Rejected ''offline''"
      "Rejected ''offline''" "Fulfilled (Failure ''denied'')"]
  from inst show ?thesis
    apply (simp only: f1 f2 nf simp_thms)
    apply (elim conjE)
    apply (intro conjI)
            apply assumption+
    done
qed

subsection \<open>Deduction game: votes\<close>

lemma upsert_vote_check:
  "upsert_vote table row = Inr table' \<Longrightarrow> \<forall>r\<in>set table. voter_id r \<noteq> target_id r \<Longrightarrow>
   \<forall>r\<in>set table'. voter_id r \<noteq> target_id r"
  by (auto simp: upsert_vote_def split: if_splits)

lemma submitVote_check:
  "\<forall>r\<in>set table. voter_id r \<noteq> target_id r \<Longrightarrow>
   \<forall>r\<in>set (snd (submitVote table s v t n ok)). voter_id r \<noteq> target_id r"
  using upsert_vote_check
  by (fastforce simp: submitVote_def Let_def split: sum.splits if_splits)

lemma submit_all_check:
  "\<forall>r\<in>set table. voter_id r \<noteq> target_id r \<Longrightarrow>
   \<forall>r\<in>set (submit_all reqs table). voter_id r \<noteq> target_id r"
proof (induction reqs arbitrary: table)
  case Nil
  then show ?case by simp
next
  case (Cons req reqs)
  obtain s v t n ok where req: "req = (s, v, t, n, ok)" by (cases req)
  show ?case
    unfolding req submit_all.simps
    by (rule Cons.IH) (rule submitVote_check [OF Cons.prems])
qed

lemma ww_player_simps:
  "ww_currentParticipant (ww_player p ph) = Some \<lparr>p_id = p, p_nickname = str p\<rparr>"
  "ww_session (ww_player p ph) = Some ww_session1"
  "ww_phase (ww_player p ph) = ph"
  "ww_hasVoted (ww_player p ph) = False"
  "ww_voteRound (ww_player p ph) = 1"
  "ww_votes (ww_player p ph) = []"
  "ww_roomId (ww_player p ph) = ''room''"
  "ww_reverseMode (ww_player p ph) = False"
  by (simp_all add: ww_player_def ww_init_def)

text \<open>
  Claim C3. A vote whose voter equals its target is rejected and leaves the vote table
  as it was: \<open>submitVote\<close> throws the store's error, and \<open>handleVote\<close> called
  with the local participant as target changes neither the table nor the client and
  broadcasts nothing. No row of a vote table built by any sequence of \<open>submitVote\<close>
  calls has \<open>voter_id\<close> equal to \<open>target_id\<close>.
\<close>

theorem self_vote_never_persisted:
  "snd (submitVote table sessionId voterId voterId voteRound request_ok) = table \<and>
   isl (fst (submitVote table sessionId voterId voterId voteRound request_ok)) \<and>
   (ww_currentParticipant c = Some me \<longrightarrow>
      fst (snd (handleVote c table (p_id me) request_ok send)) = table \<and>
      fst (handleVote c table (p_id me) request_ok send) = c \<and>
      snd (snd (handleVote c table (p_id me) request_ok send)) \<in> {[], [Alert]}) \<and>
   (\<forall>row\<in>set (submit_all reqs []). voter_id row \<noteq> target_id row)"
proof -
  have a: "submitVote table sessionId voterId voterId voteRound request_ok =
      (Inl (if request_ok then ''new row violates check constraint (voter_id != target_id)''
            else ''request failed''), table)" for sessionId voterId voteRound
    by (simp add: submitVote_def upsert_vote_def)
  have b: "ww_currentParticipant c = Some me \<longrightarrow>
      fst (snd (handleVote c table (p_id me) request_ok send)) = table \<and>
      fst (handleVote c table (p_id me) request_ok send) = c \<and>
      snd (snd (handleVote c table (p_id me) request_ok send)) \<in> {[], [Alert]}"
    by (simp add: handleVote_def a split: option.splits)
  have c: "\<forall>row\<in>set (submit_all reqs []). voter_id row \<noteq> target_id row"
    by (rule submit_all_check) simp
  from a b c show ?thesis by simp
qed

theorem self_vote_never_persisted_witness:
  "ww_currentParticipant (ww_player ''A'' Vote) = Some \<lparr>p_id = ''A'', p_nickname = str ''A''\<rparr> \<and>
   fst (snd (handleVote (ww_player ''A'' Vote) [] ''A'' True Status_ok)) = [] \<and>
   snd (snd (handleVote (ww_player ''A'' Vote) [] ''A'' True Status_ok)) = [Alert] \<and>
   submit_all [(''s1'', ''A'', ''A'', 1, True), (''s1'', ''A'', ''B'', 1, True)] [] =
     [\<lparr>wv_session_id = ''s1'', voter_id = ''A'', target_id = ''B'', vote_round = 1\<rparr>] \<and>
   voter_id \<lparr>wv_session_id = ''s1'', voter_id = ''A'', target_id = ''B'', vote_round = 1\<rparr>
     \<noteq> target_id \<lparr>wv_session_id = ''s1'', voter_id = ''A'', target_id = ''B'', vote_round = 1\<rparr>"
proof -
  let ?reqs = "[(''s1'', ''A'', ''A'', 1, True), (''s1'', ''A'', ''B'', 1, True)]"
  let ?row = "\<lparr>wv_session_id = ''s1'', voter_id = ''A'', target_id = ''B'', vote_round = 1\<rparr>"
  have me: "ww_currentParticipant (ww_player ''A'' Vote) = Some \<lparr>p_id = ''A'', p_nickname = str ''A''\<rparr>"
    by (simp add: ww_player_simps)
  have tbl: "submit_all ?reqs [] = [?row]"
    by (simp add: submitVote_def upsert_vote_def Let_def)
  have fx: "snd (snd (handleVote (ww_player ''A'' Vote) [] ''A'' True Status_ok)) = [Alert]"
    by (simp add: handleVote_def ww_player_simps submitVote_def upsert_vote_def Let_def)
  note inst = self_vote_never_persisted
      [of "[]" "''s1''" "''A''" 1 True "ww_player ''A'' Vote"
          "\<lparr>p_id = ''A'', p_nickname = str ''A''\<rparr>" Status_ok ?reqs]
  from inst me have unchanged:
    "fst (snd (handleVote (ww_player ''A'' Vote) [] ''A'' True Status_ok)) = []"
    by simp
  from inst have "\<forall>row\<in>set (submit_all ?reqs []). voter_id row \<noteq> target_id row"
    by blast
  then have ne: "voter_id ?row \<noteq> target_id ?row"
    unfolding tbl by simp
  from me unchanged fx tbl ne show ?thesis by blast
qed

subsection \<open>Deduction game: tally\<close>

lemma sd_started_simps:
  "ww_roomId (sd_started p) = ''room''"
  "ww_phase (sd_started p) = Talk"
  "ww_session (sd_started p) = Some ww_session1"
  "ww_assignment (sd_started p) = find (\<lambda>a. wa_participant_id a = p) ww_assignments1"
  "ww_votes (sd_started p) = []"
  "ww_voteRound (sd_started p) = 1"
  "ww_gameResult (sd_started p) =
     \<lparr>gr_winner = None, gr_eliminatedPlayer = None, gr_werewolfGuess = None,
      gr_isCorrectGuess = False\<rparr>"
  "ww_currentParticipant (sd_started p) = Some \<lparr>p_id = p, p_nickname = str p\<rparr>"
  "ww_selectedVote (sd_started p) = None"
  "ww_hasVoted (sd_started p) = False"
  "ww_reverseMode (sd_started p) = False"
  "ww_phaseButtonClicks (sd_started p) = []"
  "ww_hasClickedPhaseButton (sd_started p) = False"
  by (simp_all add: sd_started_def handleGameStart_def getSession_def getAssignment_def
      await_data_def try_catch_def ww_init_def)

lemma sd_topic_eq: "sd_topic = ''werewolf-game-events-room''"
  "ww_channelName ''room'' = ''werewolf-game-events-room''"
  by (simp_all add: sd_topic_def ww_channelName_def)

lemma ws_id_session1: "ws_id ww_session1 = ''s1''"
  by (simp add: ww_session1_def)

lemma sd_B_click1_eq:
  "sd_B_click1 =
     ((sd_started ''B'')\<lparr>ww_hasClickedPhaseButton := True, ww_phaseButtonClicks := [''B'']\<rparr>,
      [Send ''werewolf-game-events-room'' (werewolf_phase_button_click ''B'')])"
  by (simp add: sd_B_click1_def handlePhaseButtonClick_def sd_started_simps sd_topic_eq
      set_add_def Let_def)

lemma sd_C_click1_eq:
  "sd_C_click1 =
     ((sd_started ''C'')\<lparr>ww_hasClickedPhaseButton := True,
         ww_phaseButtonClicks := [''B'', ''C'']\<rparr>,
      [Send ''werewolf-game-events-room'' (werewolf_phase_button_click ''C''),
       Store (UpdatePhase ''s1'' Vote),
       Send ''werewolf-game-events-room'' (werewolf_phase_change Vote)])"
  by (simp add: sd_C_click1_def sd_B_click1_eq handlePhaseButtonClick_def sd_started_simps
      sd_topic_eq set_add_def Let_def handlePhaseChange_def ws_id_session1)

lemma sd_A_vote1_eq:
  "sd_A_vote1 =
     (sd_started ''A'')\<lparr>ww_phase := Vote, ww_votes := [], ww_hasVoted := False,
        ww_selectedVote := None, ww_phaseButtonClicks := [],
        ww_hasClickedPhaseButton := False\<rparr>"
  by (simp add: sd_A_vote1_def sd_B_click1_eq sd_C_click1_eq sd_topic_eq Let_def set_add_def)

lemma sd_B_vote1_eq:
  "sd_B_vote1 =
     (sd_started ''B'')\<lparr>ww_phase := Vote, ww_votes := [], ww_hasVoted := False,
        ww_selectedVote := None, ww_phaseButtonClicks := [],
        ww_hasClickedPhaseButton := False\<rparr>"
  by (simp add: sd_B_vote1_def sd_B_click1_eq sd_C_click1_eq sd_topic_eq Let_def set_add_def)

lemma sd_A_voted1_eq:
  "sd_A_voted1 =
     (sd_A_vote1\<lparr>ww_selectedVote := Some ''B'', ww_hasVoted := True,
         ww_votes := [(''A'', ''B'')]\<rparr>,
      [\<lparr>wv_session_id = ''s1'', voter_id = ''A'', target_id = ''B'', vote_round = 1\<rparr>],
      [Send ''werewolf-game-events-room'' (werewolf_vote_submitted ''A'' ''B'')])"
  by (simp add: sd_A_voted1_def handleVote_def sd_A_vote1_eq sd_started_simps sd_topic_eq
      submitVote_def upsert_vote_def Let_def ws_id_session1)

lemma sd_B_voted1_eq:
  "sd_B_voted1 =
     (sd_B_vote1\<lparr>ww_selectedVote := Some ''A'', ww_hasVoted := True,
         ww_votes := [(''A'', ''B''), (''B'', ''A'')]\<rparr>,
      [\<lparr>wv_session_id = ''s1'', voter_id = ''A'', target_id = ''B'', vote_round = 1\<rparr>,
       \<lparr>wv_session_id = ''s1'', voter_id = ''B'', target_id = ''A'', vote_round = 1\<rparr>],
      [Send ''werewolf-game-events-room'' (werewolf_vote_submitted ''B'' ''A'')])"
  by (simp add: sd_B_voted1_def handleVote_def sd_A_voted1_eq sd_B_vote1_eq sd_started_simps
      sd_topic_eq submitVote_def upsert_vote_def same_vote_key_def Let_def ws_id_session1)

lemma sd_votes_round1:
  "getVotes (select_votes
     [\<lparr>wv_session_id = ''s1'', voter_id = ''A'', target_id = ''B'', vote_round = 1\<rparr>,
      \<lparr>wv_session_id = ''s1'', voter_id = ''B'', target_id = ''A'', vote_round = 1\<rparr>] ''s1'' 1) =
   Inr [\<lparr>wv_session_id = ''s1'', voter_id = ''A'', target_id = ''B'', vote_round = 1\<rparr>,
        \<lparr>wv_session_id = ''s1'', voter_id = ''B'', target_id = ''A'', vote_round = 1\<rparr>]"
  "getVotes (select_votes
     [\<lparr>wv_session_id = ''s1'', voter_id = ''A'', target_id = ''B'', vote_round = 1\<rparr>,
      \<lparr>wv_session_id = ''s1'', voter_id = ''B'', target_id = ''A'', vote_round = 1\<rparr>,
      \<lparr>wv_session_id = ''s1'', voter_id = ''A'', target_id = ''B'', vote_round = 2\<rparr>] ''s1'' 1) =
   Inr [\<lparr>wv_session_id = ''s1'', voter_id = ''A'', target_id = ''B'', vote_round = 1\<rparr>,
        \<lparr>wv_session_id = ''s1'', voter_id = ''B'', target_id = ''A'', vote_round = 1\<rparr>]"
  by (simp_all add: getVotes_def select_votes_def await_data_def try_catch_def)

lemma sd_assignments_read:
  "getAllAssignments (select_assignments ww_assignments1 ''s1'') = Inr ww_assignments1"
  by (simp add: getAllAssignments_def select_assignments_def await_data_def try_catch_def
      ww_assignments1_def)

lemma sd_tied:
  "eliminatedCandidates
     [\<lparr>wv_session_id = ''s1'', voter_id = ''A'', target_id = ''B'', vote_round = 1\<rparr>,
      \<lparr>wv_session_id = ''s1'', voter_id = ''B'', target_id = ''A'', vote_round = 1\<rparr>] =
   [''B'', ''A'']"
  by (simp add: eliminatedCandidates_def voteCount_of_def obj_keys_def obj_values_def Let_def)

lemma sd_A_tally1_eq:
  "sd_A_tally1 =
     (sd_A_vote1\<lparr>ww_selectedVote := Some ''B'', ww_hasVoted := True,
         ww_votes := [(''A'', ''B''), (''B'', ''A'')], ww_voteRound := 2\<rparr>,
      [Store (UpdatePhase ''s1'' SuddenDeath),
       Send ''werewolf-game-events-room'' (werewolf_phase_change SuddenDeath)])"
  by (simp add: sd_A_tally1_def sd_A_ready1_def ww_tally_def ww_handleShowResults_def
      sd_B_voted1_eq sd_A_voted1_eq sd_A_vote1_eq sd_started_simps sd_topic_eq sd_votes_round1
      sd_assignments_read sd_tied handlePhaseChange_def ws_id_session1)

lemma sd_B_sudden_eq:
  "sd_B_sudden =
     (sd_started ''B'')\<lparr>ww_phase := SuddenDeath, ww_votes := [], ww_hasVoted := False,
        ww_selectedVote := None, ww_phaseButtonClicks := [],
        ww_hasClickedPhaseButton := False\<rparr>"
  by (simp add: sd_B_sudden_def sd_A_tally1_eq sd_B_voted1_eq sd_B_vote1_eq sd_topic_eq Let_def)

lemma sd_C_sudden_eq:
  "sd_C_sudden =
     (sd_started ''C'')\<lparr>ww_phase := SuddenDeath, ww_votes := [], ww_hasVoted := False,
        ww_selectedVote := None, ww_phaseButtonClicks := [],
        ww_hasClickedPhaseButton := False\<rparr>"
  by (simp add: sd_C_sudden_def sd_A_tally1_eq sd_C_click1_eq sd_topic_eq Let_def
      sd_started_simps)

lemma sd_B_click2_eq:
  "sd_B_click2 =
     (sd_B_sudden\<lparr>ww_hasClickedPhaseButton := True, ww_phaseButtonClicks := [''B'']\<rparr>,
      [Send ''werewolf-game-events-room'' (werewolf_phase_button_click ''B'')])"
  by (simp add: sd_B_click2_def handlePhaseButtonClick_def sd_B_sudden_eq sd_started_simps
      sd_topic_eq set_add_def Let_def)

lemma sd_C_click2_eq:
  "sd_C_click2 =
     (sd_C_sudden\<lparr>ww_hasClickedPhaseButton := True, ww_phaseButtonClicks := [''B'', ''C'']\<rparr>,
      [Send ''werewolf-game-events-room'' (werewolf_phase_button_click ''C''),
       Store (UpdatePhase ''s1'' Vote),
       Send ''werewolf-game-events-room'' (werewolf_phase_change Vote)])"
  by (simp add: sd_C_click2_def sd_B_click2_eq handlePhaseButtonClick_def sd_C_sudden_eq
      sd_started_simps sd_topic_eq set_add_def Let_def handlePhaseChange_def ws_id_session1)

lemma sd_A_vote2_eq:
  "sd_A_vote2 =
     (sd_started ''A'')\<lparr>ww_phase := Vote, ww_votes := [], ww_hasVoted := False,
        ww_selectedVote := None, ww_phaseButtonClicks := [],
        ww_hasClickedPhaseButton := False, ww_voteRound := 2\<rparr>"
  by (simp add: sd_A_vote2_def sd_B_click2_eq sd_C_click2_eq sd_A_tally1_eq sd_A_vote1_eq
      sd_topic_eq Let_def set_add_def)

lemma sd_B_vote2_eq:
  "sd_B_vote2 =
     (sd_started ''B'')\<lparr>ww_phase := Vote, ww_votes := [], ww_hasVoted := False,
        ww_selectedVote := None, ww_phaseButtonClicks := [],
        ww_hasClickedPhaseButton := False\<rparr>"
  by (simp add: sd_B_vote2_def sd_B_click2_eq sd_C_click2_eq sd_B_sudden_eq sd_topic_eq Let_def)

lemma sd_A_voted2_eq:
  "sd_A_voted2 =
     (sd_A_vote2\<lparr>ww_selectedVote := Some ''B'', ww_hasVoted := True,
         ww_votes := [(''A'', ''B'')]\<rparr>,
      [\<lparr>wv_session_id = ''s1'', voter_id = ''A'', target_id = ''B'', vote_round = 1\<rparr>,
       \<lparr>wv_session_id = ''s1'', voter_id = ''B'', target_id = ''A'', vote_round = 1\<rparr>,
       \<lparr>wv_session_id = ''s1'', voter_id = ''A'', target_id = ''B'', vote_round = 2\<rparr>],
      [Send ''werewolf-game-events-room'' (werewolf_vote_submitted ''A'' ''B'')])"
  by (simp add: sd_A_voted2_def handleVote_def sd_A_vote2_eq sd_B_voted1_eq sd_started_simps
      sd_topic_eq submitVote_def upsert_vote_def same_vote_key_def Let_def ws_id_session1)

lemma sd_B_voted2_eq:
  "sd_B_voted2 =
     (sd_B_vote2\<lparr>ww_selectedVote := Some ''A'', ww_hasVoted := True,
         ww_votes := [(''A'', ''B''), (''B'', ''A'')]\<rparr>,
      [\<lparr>wv_session_id = ''s1'', voter_id = ''A'', target_id = ''B'', vote_round = 1\<rparr>,
       \<lparr>wv_session_id = ''s1'', voter_id = ''B'', target_id = ''A'', vote_round = 1\<rparr>,
       \<lparr>wv_session_id = ''s1'', voter_id = ''A'', target_id = ''B'', vote_round = 2\<rparr>],
      [Send ''werewolf-game-events-room'' (werewolf_vote_submitted ''B'' ''A'')])"
  by (simp add: sd_B_voted2_def handleVote_def sd_A_voted2_eq sd_B_vote2_eq sd_started_simps
      sd_topic_eq submitVote_def upsert_vote_def same_vote_key_def Let_def ws_id_session1)

lemma sd_B_tally2_eq:
  "sd_B_tally2 =
     (sd_B_vote2\<lparr>ww_selectedVote := Some ''A'', ww_hasVoted := True,
         ww_votes := [(''A'', ''B''), (''B'', ''A'')], ww_voteRound := 2\<rparr>,
      [Store (UpdatePhase ''s1'' SuddenDeath),
       Send ''werewolf-game-events-room'' (werewolf_phase_change SuddenDeath)])"
  by (simp add: sd_B_tally2_def ww_tally_def ww_handleShowResults_def sd_B_voted2_eq
      sd_B_vote2_eq sd_started_simps sd_topic_eq sd_votes_round1
      sd_assignments_read sd_tied handlePhaseChange_def ws_id_session1)

lemma sd_A_ready1_eq:
  "sd_A_ready1 =
     sd_A_vote1\<lparr>ww_selectedVote := Some ''B'', ww_hasVoted := True,
        ww_votes := [(''A'', ''B''), (''B'', ''A'')]\<rparr>"
  by (simp add: sd_A_ready1_def sd_B_voted1_eq sd_A_voted1_eq sd_topic_eq)

lemma sd_assignment_loaded:
  "find (\<lambda>a. wa_participant_id a = ''B'') ww_assignments1 \<noteq> None"
  "find (\<lambda>a. wa_participant_id a = ''C'') ww_assignments1 \<noteq> None"
  by (simp_all add: ww_assignments1_def)

text \<open>
  Claim C2, evaluated on a game that reaches a second tie through the buttons the
  component renders. No client in the phase \<open>SuddenDeath\<close> has the tally button, and
  the phase button of that phase leads back to the phase \<open>Vote\<close>, so the tally never
  runs in the phase \<open>SuddenDeath\<close>.

  On the first tie the tallying client \<open>A\<close> increments its own vote round to 2 and
  persists and broadcasts \<open>SuddenDeath\<close>; the peers \<open>B\<close> and \<open>C\<close> enter
  \<open>SuddenDeath\<close> with an empty vote set, their vote round still 1, without the tally
  button and with the phase button. After two clicks the clients are in the phase
  \<open>Vote\<close> again (a repeated change to \<open>Vote\<close>, as the deferred calls of the
  click listeners issue it, leaves a client that has just entered the phase as it is). In the second vote the vote of \<open>A\<close> is stored under round 2 and the
  vote of \<open>B\<close> under round 1. \<open>B\<close> presses the tally button: the votes of round 1
  tie again, and the game does not finish with the werewolf as winner: \<open>B\<close> stays in
  the phase \<open>Vote\<close> with no winner, increments its vote round and persists and
  broadcasts \<open>SuddenDeath\<close> once more.
\<close>

theorem second_tie_escalates_again:
  "\<not> ww_canShowResults (c\<lparr>ww_phase := SuddenDeath\<rparr>) \<and>
   ww_canShowResults sd_A_ready1 \<and>
   eliminatedCandidates (fst (snd sd_B_voted1)) = [''B'', ''A''] \<and>
   ww_voteRound (fst sd_A_tally1) = 2 \<and>
   snd sd_A_tally1 =
     [Store (UpdatePhase ''s1'' SuddenDeath),
      Send ''werewolf-game-events-room'' (werewolf_phase_change SuddenDeath)] \<and>
   ww_phase sd_B_sudden = SuddenDeath \<and> ww_votes sd_B_sudden = [] \<and>
   ww_voteRound sd_B_sudden = 1 \<and> ww_voteRound sd_C_sudden = 1 \<and>
   ww_canClickPhaseButton sd_B_sudden \<and> ww_canClickPhaseButton sd_C_sudden \<and>
   snd sd_C_click2 =
     [Send ''werewolf-game-events-room'' (werewolf_phase_button_click ''C''),
      Store (UpdatePhase ''s1'' Vote),
      Send ''werewolf-game-events-room'' (werewolf_phase_change Vote)] \<and>
   ww_canVote sd_A_vote2 \<and> ww_voteRound sd_A_vote2 = 2 \<and>
   ww_canVote sd_B_vote2 \<and> ww_voteRound sd_B_vote2 = 1 \<and>
   ww_on (werewolf_phase_change Vote) sd_A_vote1 = sd_A_vote1 \<and>
   ww_on (werewolf_phase_change Vote) sd_B_vote1 = sd_B_vote1 \<and>
   ww_on (werewolf_phase_change Vote) sd_A_vote2 = sd_A_vote2 \<and>
   ww_on (werewolf_phase_change Vote) sd_B_vote2 = sd_B_vote2 \<and>
   fst (snd sd_B_voted2) =
     [\<lparr>wv_session_id = ''s1'', voter_id = ''A'', target_id = ''B'', vote_round = 1\<rparr>,
      \<lparr>wv_session_id = ''s1'', voter_id = ''B'', target_id = ''A'', vote_round = 1\<rparr>,
      \<lparr>wv_session_id = ''s1'', voter_id = ''A'', target_id = ''B'', vote_round = 2\<rparr>] \<and>
   ww_canShowResults (fst sd_B_voted2) \<and>
   getVotes (select_votes (fst (snd sd_B_voted2)) ''s1'' (ww_voteRound (fst sd_B_voted2))) =
     Inr [\<lparr>wv_session_id = ''s1'', voter_id = ''A'', target_id = ''B'', vote_round = 1\<rparr>,
          \<lparr>wv_session_id = ''s1'', voter_id = ''B'', target_id = ''A'', vote_round = 1\<rparr>] \<and>
   ww_phase (fst sd_B_tally2) = Vote \<and>
   gr_winner (ww_gameResult (fst sd_B_tally2)) = None \<and>
   ww_voteRound (fst sd_B_tally2) = 2 \<and>
   snd sd_B_tally2 =
     [Store (UpdatePhase ''s1'' SuddenDeath),
      Send ''werewolf-game-events-room'' (werewolf_phase_change SuddenDeath)]"
proof -
  have dead: "\<not> ww_canShowResults (c\<lparr>ww_phase := SuddenDeath\<rparr>)"
    by (simp add: ww_canShowResults_def)
  have a1: "ww_canShowResults sd_A_ready1"
    by (simp add: ww_canShowResults_def sd_A_ready1_eq sd_A_vote1_eq sd_started_simps)
  have t1: "eliminatedCandidates (fst (snd sd_B_voted1)) = [''B'', ''A'']"
    by (simp add: sd_B_voted1_eq sd_tied)
  have a2: "ww_voteRound (fst sd_A_tally1) = 2"
    "snd sd_A_tally1 =
       [Store (UpdatePhase ''s1'' SuddenDeath),
        Send ''werewolf-game-events-room'' (werewolf_phase_change SuddenDeath)]"
    by (simp_all add: sd_A_tally1_eq)
  have s: "ww_phase sd_B_sudden = SuddenDeath" "ww_votes sd_B_sudden = []"
    "ww_voteRound sd_B_sudden = 1" "ww_voteRound sd_C_sudden = 1"
    by (simp_all add: sd_B_sudden_eq sd_C_sudden_eq sd_started_simps)
  have p: "ww_canClickPhaseButton sd_B_sudden" "ww_canClickPhaseButton sd_C_sudden"
    by (simp_all add: ww_canClickPhaseButton_def sd_B_sudden_eq sd_C_sudden_eq
        sd_started_simps sd_assignment_loaded)
  have c2: "snd sd_C_click2 =
     [Send ''werewolf-game-events-room'' (werewolf_phase_button_click ''C''),
      Store (UpdatePhase ''s1'' Vote),
      Send ''werewolf-game-events-room'' (werewolf_phase_change Vote)]"
    by (simp add: sd_C_click2_eq)
  have v: "ww_canVote sd_A_vote2" "ww_voteRound sd_A_vote2 = 2"
    "ww_canVote sd_B_vote2" "ww_voteRound sd_B_vote2 = 1"
    by (simp_all add: ww_canVote_def sd_A_vote2_eq sd_B_vote2_eq sd_started_simps)
  have again: "ww_on (werewolf_phase_change Vote) sd_A_vote1 = sd_A_vote1"
    "ww_on (werewolf_phase_change Vote) sd_B_vote1 = sd_B_vote1"
    "ww_on (werewolf_phase_change Vote) sd_A_vote2 = sd_A_vote2"
    "ww_on (werewolf_phase_change Vote) sd_B_vote2 = sd_B_vote2"
    by (simp_all add: sd_A_vote1_eq sd_B_vote1_eq sd_A_vote2_eq sd_B_vote2_eq Let_def)
  have tb: "fst (snd sd_B_voted2) =
     [\<lparr>wv_session_id = ''s1'', voter_id = ''A'', target_id = ''B'', vote_round = 1\<rparr>,
      \<lparr>wv_session_id = ''s1'', voter_id = ''B'', target_id = ''A'', vote_round = 1\<rparr>,
      \<lparr>wv_session_id = ''s1'', voter_id = ''A'', target_id = ''B'', vote_round = 2\<rparr>]"
    by (simp add: sd_B_voted2_eq)
  have b1: "ww_canShowResults (fst sd_B_voted2)"
    by (simp add: ww_canShowResults_def sd_B_voted2_eq sd_B_vote2_eq sd_started_simps)
  have rd: "ww_voteRound (fst sd_B_voted2) = 1"
    by (simp add: sd_B_voted2_eq sd_B_vote2_eq sd_started_simps)
  have b2: "ww_phase (fst sd_B_tally2) = Vote"
    "gr_winner (ww_gameResult (fst sd_B_tally2)) = None"
    "ww_voteRound (fst sd_B_tally2) = 2"
    "snd sd_B_tally2 =
       [Store (UpdatePhase ''s1'' SuddenDeath),
        Send ''werewolf-game-events-room'' (werewolf_phase_change SuddenDeath)]"
    by (simp_all add: sd_B_tally2_eq sd_B_vote2_eq sd_started_simps)
  show ?thesis
    unfolding tb rd sd_votes_round1 using dead a1 t1 a2 s p c2 v again b1 b2 by simp
qed

subsection \<open>Deduction game: reverse chance\<close>

















subsection \<open>Concurrency guard\<close>

text \<open>
  Claim C7, evaluated on two runs of the event loop with one key. In the first, operation
  1 holds the lock, operation 2 is queued, 1 settles, the timer starts 2, and a new
  caller 3 arrives: the lock is free while 2 runs, so 3 starts at once and 2 and 3 are
  in flight together. In the second, 2 and 3 are queued behind 1; after 1 settles, 2 is
  started by the timer and settles; then nothing runs, no timer is pending, 3 is still
  queued, and neither a timer tick nor the settling of any operation changes the state:
  3 does not run unless a later caller takes and releases the lock.
\<close>

theorem guard_overlap_and_starvation:
  "running_on ''k''
     (lock_run [Call ''k'' 1, Call ''k'' 2, Settle 1, Timer, Call ''k'' 3] lock_init) = [2, 3] \<and>
   running (lock_run [Call ''k'' 1, Call ''k'' 2, Call ''k'' 3, Settle 1, Timer, Settle 2]
              lock_init) = [] \<and>
   timers (lock_run [Call ''k'' 1, Call ''k'' 2, Call ''k'' 3, Settle 1, Timer, Settle 2]
              lock_init) = [] \<and>
   finished (lock_run [Call ''k'' 1, Call ''k'' 2, Call ''k'' 3, Settle 1, Timer, Settle 2]
              lock_init) = [1, 2] \<and>
   gameOperationQueues
     (lock_run [Call ''k'' 1, Call ''k'' 2, Call ''k'' 3, Settle 1, Timer, Settle 2] lock_init)
     ''k'' = Some [3] \<and>
   lock_step Timer
     (lock_run [Call ''k'' 1, Call ''k'' 2, Call ''k'' 3, Settle 1, Timer, Settle 2] lock_init) =
     lock_run [Call ''k'' 1, Call ''k'' 2, Call ''k'' 3, Settle 1, Timer, Settle 2] lock_init \<and>
   (\<forall>op. lock_step (Settle op)
     (lock_run [Call ''k'' 1, Call ''k'' 2, Call ''k'' 3, Settle 1, Timer, Settle 2] lock_init) =
     lock_run [Call ''k'' 1, Call ''k'' 2, Call ''k'' 3, Settle 1, Timer, Settle 2] lock_init)"
proof -
  have a: "lock_run [Call ''k'' 1, Call ''k'' 2, Settle 1, Timer, Call ''k'' 3] lock_init =
      \<lparr>gameOperationLocks = [''k'' \<mapsto> True], gameOperationQueues = [''k'' \<mapsto> []],
       running = [(2, ''k'', False), (3, ''k'', True)], timers = [], finished = [1]\<rparr>"
    by (simp add: lock_run_def lock_init_def Let_def)
  have b: "lock_run [Call ''k'' 1, Call ''k'' 2, Call ''k'' 3, Settle 1, Timer, Settle 2] lock_init =
      \<lparr>gameOperationLocks = Map.empty, gameOperationQueues = [''k'' \<mapsto> [3]],
       running = [], timers = [], finished = [1, 2]\<rparr>"
    by (simp add: lock_run_def lock_init_def Let_def)
  show ?thesis
    unfolding a b by (simp add: running_on_def)
qed

subsection \<open>Joining a room\<close>

lemma filter_token_le1:
  "distinct (map pt_session_token table) \<Longrightarrow>
   find (\<lambda>r. pt_session_token r = tok) table = Some old \<Longrightarrow>
   filter (\<lambda>r. pt_session_token r = tok) table = [old]"
proof (induction table)
  case Nil
  then show ?case by simp
next
  case (Cons r table)
  show ?case
  proof (cases "pt_session_token r = tok")
    case True
    with Cons.prems have "old = r" by simp
    moreover from Cons.prems True have "\<forall>x\<in>set table. pt_session_token x \<noteq> tok"
      by (metis distinct.simps(2) image_eqI list.simps(9) set_map)
    then have "filter (\<lambda>r. pt_session_token r = tok) table = []"
      by (simp add: filter_empty_conv)
    ultimately show ?thesis using True by simp
  next
    case False
    with Cons show ?thesis by simp
  qed
qed

lemma distinct_delete:
  "distinct (map pt_session_token table) \<Longrightarrow>
   distinct (map pt_session_token (delete_same_nickname table roomId nickname tok))"
  by (simp add: delete_same_nickname_def distinct_map_filter)

lemma deleted_no_conflict:
  "r \<in> set (delete_same_nickname table roomId nickname tok) \<Longrightarrow>
   pt_room_id r = roomId \<Longrightarrow> pt_nickname r = nickname \<Longrightarrow> pt_session_token r = tok"
  by (auto simp: delete_same_nickname_def)

lemma room_exists_after_upsert: "\<exists>r\<in>set (upsert_room table roomId). rm_id r = roomId"
proof (cases "\<exists>r\<in>set table. rm_id r = roomId")
  case True
  then obtain r where "r \<in> set table" "rm_id r = roomId" by blast
  then have "\<lparr>rm_id = roomId, rm_name = roomId, rm_is_active = True\<rparr>
               \<in> set (upsert_room table roomId)"
    by (force simp: upsert_room_def Let_def)
  then show ?thesis by force
next
  case False
  then show ?thesis by (simp add: upsert_room_def Let_def)
qed

lemma upsert_after_delete:
  fixes st :: room_store
  defines "table \<equiv> participants st" and "rs \<equiv> rooms st"
  assumes dist: "distinct (map pt_session_token table)"
    and room: "\<exists>r\<in>set rs. rm_id r = roomId"
    and clean: "\<forall>r\<in>set table. pt_room_id r = roomId \<and> pt_nickname r = nickname \<longrightarrow>
                  pt_session_token r = tok"
  shows "\<exists>table' data.
           upsert_participant st roomId nickname tok now nid
             = Inr (table', data) \<and>
           pt_room_id data = roomId \<and> pt_nickname data = nickname \<and>
           pt_session_token data = tok \<and>
           filter (\<lambda>r. pt_room_id r = roomId \<and> pt_nickname r = nickname) table' = [data] \<and>
           (\<forall>r\<in>set table'. r = data \<or> r \<in> set table)"
proof (cases "find (\<lambda>r. pt_session_token r = tok) table")
  case None
  then have notok: "\<forall>r\<in>set table. pt_session_token r \<noteq> tok"
    by (simp add: find_None_iff)
  with clean have "filter (\<lambda>r. pt_room_id r = roomId \<and> pt_nickname r = nickname) table = []"
    by (auto simp: filter_empty_conv)
  with None room clean show ?thesis
    unfolding table_def rs_def by (auto simp: upsert_participant_def Let_def)
next
  case (Some old)
  let ?data = "old\<lparr>pt_room_id := roomId, pt_nickname := nickname, pt_is_online := True,
                    pt_joined_at := now, pt_last_seen := now\<rparr>"
  let ?upd = "\<lambda>r. if pt_session_token r = tok then ?data else r"
  from Some have oldtok: "pt_session_token old = tok"
    by (auto dest: find_Some_iff [THEN iffD1])
  have "filter (\<lambda>r. pt_room_id r = roomId \<and> pt_nickname r = nickname) (map ?upd table)
        = map ?upd (filter (\<lambda>r. pt_session_token r = tok) table)"
    using clean by (induction table) (auto simp: oldtok)
  also have "\<dots> = [?data]"
    using filter_token_le1 [OF dist Some] oldtok by simp
  finally have one:
    "filter (\<lambda>r. pt_room_id r = roomId \<and> pt_nickname r = nickname) (map ?upd table) = [?data]" .
  have res: "upsert_participant st roomId nickname tok now nid
      = Inr (map ?upd table, ?data)"
    using Some room clean unfolding table_def rs_def
    by (auto simp: upsert_participant_def Let_def)
  have mem: "\<forall>r\<in>set (map ?upd table). r = ?data \<or> r \<in> set table" by auto
  from res one mem oldtok show ?thesis by simp
qed

lemma upsert_participant_dist:
  assumes dist: "distinct (map pt_session_token (participants st))"
    and up: "upsert_participant st roomId nickname tok now nid = Inr (table', data)"
  shows "distinct (map pt_session_token table')"
proof (cases "find (\<lambda>r. pt_session_token r = tok) (participants st)")
  case None
  then have "\<forall>r\<in>set (participants st). pt_session_token r \<noteq> tok"
    by (simp add: find_None_iff)
  with None up dist show ?thesis
    by (auto simp: upsert_participant_def Let_def split: if_splits)
next
  case (Some old)
  then have oldtok: "pt_session_token old = tok"
    by (auto dest: find_Some_iff [THEN iffD1])
  let ?data = "old\<lparr>pt_room_id := roomId, pt_nickname := nickname, pt_is_online := True,
                    pt_joined_at := now, pt_last_seen := now\<rparr>"
  have same: "map pt_session_token
                (map (\<lambda>r. if pt_session_token r = tok then ?data else r) xs)
              = map pt_session_token xs" for xs
    using oldtok by (induction xs) auto
  from Some up have "table' = map (\<lambda>r. if pt_session_token r = tok then ?data else r)
                                (participants st)"
    by (auto simp: upsert_participant_def Let_def split: if_splits)
  with same [of "participants st"] dist show ?thesis by (simp only:)
qed

lemma upsert_participant_clean:
  assumes up: "upsert_participant st roomId nickname tok now nid = Inr (table', data)"
  shows "(\<exists>r\<in>set (rooms st). rm_id r = roomId) \<and>
         (\<forall>r\<in>set (participants st). pt_room_id r = roomId \<and> pt_nickname r = nickname \<longrightarrow>
            pt_session_token r = tok)"
  using up by (auto simp: upsert_participant_def split: if_splits)

lemma join_once_dist:
  assumes dist: "distinct (map pt_session_token (participants store))"
  shows "distinct (map pt_session_token
           (participants (fst (snd (join_once store roomId nickname tok aio)))))"
proof -
  let ?s1 = "store\<lparr>rooms := upsert_room (rooms store) roomId\<rparr>"
  let ?s2 = "if io_delete aio = Reaches
             then ?s1\<lparr>participants := delete_same_nickname (participants ?s1) roomId nickname tok\<rparr>
             else ?s1"
  have d2: "distinct (map pt_session_token (participants ?s2))"
    using dist distinct_delete [OF dist] by simp
  show ?thesis
  proof (cases "upsert_participant ?s2 roomId nickname tok (io_now aio) (io_new_id aio)")
    case (Inl e)
    with dist d2 show ?thesis by (simp add: join_once_def Let_def)
  next
    case (Inr td)
    obtain table' data where td: "td = (table', data)" by (cases td)
    from upsert_participant_dist [OF d2 Inr [unfolded td]]
    have "distinct (map pt_session_token table')" .
    with dist d2 Inr td show ?thesis by (simp add: join_once_def Let_def)
  qed
qed

lemma join_once_success:
  assumes dist: "distinct (map pt_session_token (participants store))"
    and ok: "join_once store roomId nickname tok aio = (Inr data, store', fx)"
  shows "pt_room_id data = roomId \<and> pt_nickname data = nickname \<and>
         pt_session_token data = tok \<and>
         filter (\<lambda>r. pt_room_id r = roomId \<and> pt_nickname r = nickname) (participants store')
           = [data]"
proof -
  let ?s1 = "store\<lparr>rooms := upsert_room (rooms store) roomId\<rparr>"
  let ?s2 = "if io_delete aio = Reaches
             then ?s1\<lparr>participants := delete_same_nickname (participants ?s1) roomId nickname tok\<rparr>
             else ?s1"
  have d2: "distinct (map pt_session_token (participants ?s2))"
    using dist distinct_delete [OF dist] by simp
  from ok obtain table' where
    up: "upsert_participant ?s2 roomId nickname tok (io_now aio) (io_new_id aio)
           = Inr (table', data)"
    and st: "participants store' = table'"
    by (auto simp: join_once_def Let_def split: if_splits sum.splits)
  note cl = upsert_participant_clean [OF up]
  from upsert_after_delete [OF d2 cl [THEN conjunct1] cl [THEN conjunct2],
      of "io_now aio" "io_new_id aio"] up st
  show ?thesis by auto
qed

lemma join_once_all_ok:
  assumes dist: "distinct (map pt_session_token (participants store))"
    and ok: "all_ok aio"
  shows "\<exists>data. fst (join_once store roomId nickname tok aio) = Inr data"
proof -
  let ?store2 = "store\<lparr>rooms := upsert_room (rooms store) roomId,
                       participants := delete_same_nickname (participants store) roomId nickname
                                         tok\<rparr>"
  have d2: "distinct (map pt_session_token (participants ?store2))"
    using distinct_delete [OF dist] by simp
  have r2: "\<exists>r\<in>set (rooms ?store2). rm_id r = roomId"
    using room_exists_after_upsert [of "rooms store" roomId] by simp
  have c2: "\<forall>r\<in>set (participants ?store2).
              pt_room_id r = roomId \<and> pt_nickname r = nickname \<longrightarrow> pt_session_token r = tok"
    using deleted_no_conflict [of _ "participants store" roomId nickname tok] by simp
  from upsert_after_delete [OF d2 r2 c2, of "io_now aio" "io_new_id aio"]
  obtain table' data where
    "upsert_participant ?store2 roomId nickname tok (io_now aio) (io_new_id aio)
           = Inr (table', data)"
    by blast
  with ok show ?thesis by (simp add: join_once_def all_ok_def Let_def)
qed

lemma attempt_safety:
  "distinct (map pt_session_token (participants store)) \<Longrightarrow>
   attemptJoinRoom store roomId nickname tok maxRetries io retryCount = (Inr data, store', fx) \<Longrightarrow>
   pt_room_id data = roomId \<and> pt_nickname data = nickname \<and> pt_session_token data = tok \<and>
   filter (\<lambda>r. pt_room_id r = roomId \<and> pt_nickname r = nickname) (participants store') = [data]"
proof (induction store roomId nickname tok maxRetries io retryCount arbitrary: fx
       rule: attemptJoinRoom.induct)
  case (1 store roomId nickname tok maxRetries io retryCount)
  let ?attempt = "join_once store roomId nickname tok (io retryCount)"
  show ?case
  proof (cases "fst ?attempt")
    case (Inr d)
    with "1.prems"(2) have "?attempt = (Inr data, store', fx)"
      by (subst (asm) attemptJoinRoom.simps) (simp add: Let_def)
    from join_once_success [OF "1.prems"(1) this] show ?thesis .
  next
    case (Inl e)
    show ?thesis
    proof (cases "retryCount < maxRetries - 1")
      case True
      let ?later = "attemptJoinRoom (fst (snd ?attempt)) roomId nickname tok maxRetries io
                      (retryCount + 1)"
      from "1.prems"(2) Inl True have l: "fst ?later = Inr data" "fst (snd ?later) = store'"
        by (subst (asm) attemptJoinRoom.simps, simp add: Let_def)+
      then have eq: "?later = (Inr data, store', snd (snd ?later))"
        by (metis prod.collapse)
      have d: "distinct (map pt_session_token (participants (fst (snd ?attempt))))"
        by (rule join_once_dist [OF "1.prems"(1)])
      from "1.IH" [OF refl Inl True d eq] show ?thesis .
    next
      case False
      with "1.prems"(2) Inl show ?thesis
        by (subst (asm) attemptJoinRoom.simps) (simp add: Let_def)
    qed
  qed
qed

lemma attempt_liveness:
  "distinct (map pt_session_token (participants store)) \<Longrightarrow>
   retryCount \<le> k \<Longrightarrow> k < maxRetries \<Longrightarrow> all_ok (io k) \<Longrightarrow>
   \<exists>data. fst (attemptJoinRoom store roomId nickname tok maxRetries io retryCount) = Inr data"
proof (induction "k - retryCount" arbitrary: store retryCount)
  case 0
  then have "retryCount = k" by simp
  with join_once_all_ok [OF "0.prems"(1), of "io k" roomId nickname tok] "0.prems"(4)
  show ?case
    by (subst attemptJoinRoom.simps) (auto simp: Let_def)
next
  case (Suc n)
  let ?attempt = "join_once store roomId nickname tok (io retryCount)"
  show ?case
  proof (cases "fst ?attempt")
    case (Inr d)
    then show ?thesis by (subst attemptJoinRoom.simps) (simp add: Let_def)
  next
    case (Inl e)
    from Suc.hyps(2) Suc.prems have lt: "retryCount < maxRetries - 1" by simp
    have d: "distinct (map pt_session_token (participants (fst (snd ?attempt))))"
      by (rule join_once_dist [OF Suc.prems(1)])
    from Suc.hyps(2) Suc.prems have "n = k - (retryCount + 1)" "retryCount + 1 \<le> k" by simp_all
    from Suc.hyps(1) [OF this(1) d this(2) Suc.prems(3) Suc.prems(4)]
    obtain data where "fst (attemptJoinRoom (fst (snd ?attempt)) roomId nickname tok maxRetries io
                               (retryCount + 1)) = Inr data" by blast
    with Inl lt show ?thesis
      by (subst attemptJoinRoom.simps) (simp add: Let_def)
  qed
qed

text \<open>
  Claim C10. Let the session tokens of the participants table be distinct (its unique
  constraint). Whenever \<open>joinRoom\<close> returns, on whichever attempt, it returns the
  caller's row, with the room, the nickname and the caller's session token; that row is
  the only row of the room with this nickname; and every row that held the nickname in
  the room under another session token is gone from the table. If on some attempt within
  the retry bound every request reaches the store and both broadcasts are sent, then
  \<open>joinRoom\<close> returns: on that attempt the holders of the nickname are deleted before
  the upsert, which therefore meets no uniqueness conflict.
\<close>

theorem joinRoom_evicts_nickname_holder:
  assumes dist: "distinct (map pt_session_token (participants store))"
  shows "(\<forall>data store' fx.
            joinRoom store roomId nickname sessionToken isMobile io = (Inr data, store', fx) \<longrightarrow>
            pt_room_id data = roomId \<and> pt_nickname data = nickname \<and>
            pt_session_token data = sessionToken \<and>
            filter (\<lambda>r. pt_room_id r = roomId \<and> pt_nickname r = nickname) (participants store')
              = [data] \<and>
            (\<forall>r\<in>set (participants store).
               pt_room_id r = roomId \<and> pt_nickname r = nickname \<and>
               pt_session_token r \<noteq> sessionToken \<longrightarrow> r \<notin> set (participants store'))) \<and>
         ((\<exists>k < (if isMobile then 5 else 3). all_ok (io k)) \<longrightarrow>
            (\<exists>data store' fx.
               joinRoom store roomId nickname sessionToken isMobile io = (Inr data, store', fx)))"
proof (intro conjI allI impI)
  fix data store' fx
  assume j: "joinRoom store roomId nickname sessionToken isMobile io = (Inr data, store', fx)"
  let ?att = "attemptJoinRoom store roomId nickname sessionToken (if isMobile then 5 else 3) io 0"
  from j have "fst ?att = Inr data \<and> snd ?att = (store', fx)"
    by (auto simp: joinRoom_def Let_def split: sum.splits)
  then have "?att = (Inr data, store', fx)" by (metis prod.collapse)
  from attempt_safety [OF dist this]
  have props: "pt_room_id data = roomId \<and> pt_nickname data = nickname \<and>
      pt_session_token data = sessionToken \<and>
      filter (\<lambda>r. pt_room_id r = roomId \<and> pt_nickname r = nickname) (participants store')
        = [data]" .
  then show "pt_room_id data = roomId" "pt_nickname data = nickname"
    "pt_session_token data = sessionToken"
    "filter (\<lambda>r. pt_room_id r = roomId \<and> pt_nickname r = nickname) (participants store')
       = [data]"
    by simp_all
  show "\<forall>r\<in>set (participants store).
          pt_room_id r = roomId \<and> pt_nickname r = nickname \<and>
          pt_session_token r \<noteq> sessionToken \<longrightarrow> r \<notin> set (participants store')"
  proof (intro ballI impI notI)
    fix r
    assume conflict: "pt_room_id r = roomId \<and> pt_nickname r = nickname \<and>
                      pt_session_token r \<noteq> sessionToken"
      and "r \<in> set (participants store')"
    then have "r \<in> set (filter (\<lambda>r. pt_room_id r = roomId \<and> pt_nickname r = nickname)
                           (participants store'))"
      by simp
    with props have "r = data" by simp
    with conflict props show False by simp
  qed
next
  assume "\<exists>k < (if isMobile then 5 else 3). all_ok (io k)"
  then obtain k where k: "k < (if isMobile then 5 else 3)" "all_ok (io k)" by blast
  let ?att = "attemptJoinRoom store roomId nickname sessionToken (if isMobile then 5 else 3) io 0"
  have "0 \<le> k" by simp
  from attempt_liveness [of store 0 k "if isMobile then 5 else 3" io roomId nickname sessionToken,
      OF dist this k]
  obtain data where f: "fst ?att = Inr data" by blast
  then have "?att = (Inr data, fst (snd ?att), snd (snd ?att))"
    by (metis prod.collapse)
  with f have "joinRoom store roomId nickname sessionToken isMobile io =
               (Inr data, fst (snd ?att), snd (snd ?att))"
    unfolding joinRoom_def Let_def by (simp only: sum.case)
  then show "\<exists>data store' fx.
               joinRoom store roomId nickname sessionToken isMobile io = (Inr data, store', fx)"
    by blast
qed

theorem joinRoom_evicts_nickname_holder_witness:
  "distinct (map pt_session_token (participants room_with_alice)) \<and>
   (0::nat) < (if False then 5 else 3) \<and> all_ok (io_all_ok 0) \<and>
   fst (joinRoom room_with_alice ''r'' (str ''alice'') ''t-new'' False io_all_ok) =
     Inr \<lparr>pt_id = ''p2'', pt_room_id = ''r'', pt_nickname = str ''alice'',
          pt_session_token = ''t-new'', pt_is_online = True, pt_joined_at = 5,
          pt_last_seen = 5\<rparr> \<and>
   filter (\<lambda>r. pt_room_id r = ''r'' \<and> pt_nickname r = str ''alice'')
     (participants (fst (snd (joinRoom room_with_alice ''r'' (str ''alice'') ''t-new'' False
                                io_all_ok)))) =
     [\<lparr>pt_id = ''p2'', pt_room_id = ''r'', pt_nickname = str ''alice'',
       pt_session_token = ''t-new'', pt_is_online = True, pt_joined_at = 5,
       pt_last_seen = 5\<rparr>]"
proof -
  let ?new = "\<lparr>pt_id = ''p2'', pt_room_id = ''r'', pt_nickname = str ''alice'',
       pt_session_token = ''t-new'', pt_is_online = True, pt_joined_at = 5,
       pt_last_seen = 5\<rparr>"
  let ?j = "joinRoom room_with_alice ''r'' (str ''alice'') ''t-new'' False io_all_ok"
  have h0: "distinct (map pt_session_token (participants room_with_alice))"
    by (simp add: room_with_alice_def)
  have h1: "(0::nat) < (if False then 5 else 3)" by simp
  have h2: "all_ok (io_all_ok 0)" by (simp add: all_ok_def io_all_ok_def)
  have once: "fst (join_once room_with_alice ''r'' (str ''alice'') ''t-new'' (io_all_ok 0))
      = Inr ?new"
    by (simp add: join_once_def io_all_ok_def room_with_alice_def upsert_room_def
        delete_same_nickname_def upsert_participant_def Let_def)
  have att: "fst (attemptJoinRoom room_with_alice ''r'' (str ''alice'') ''t-new'' 3 io_all_ok 0)
      = Inr ?new"
    by (subst attemptJoinRoom.simps) (simp add: once Let_def)
  have res: "fst ?j = Inr ?new"
    by (simp add: joinRoom_def att Let_def)
  note inst = joinRoom_evicts_nickname_holder
      [OF h0, of "''r''" "str ''alice''" "''t-new''" False io_all_ok]
  from inst h1 h2 obtain data store' fx where j: "?j = (Inr data, store', fx)"
    by blast
  with inst have one: "filter (\<lambda>r. pt_room_id r = ''r'' \<and> pt_nickname r = str ''alice'')
                (participants store') = [data]"
    by blast
  from j res have "data = ?new" by simp
  with j one have "filter (\<lambda>r. pt_room_id r = ''r'' \<and> pt_nickname r = str ''alice'')
     (participants (fst (snd ?j))) = [?new]"
    by simp
  with h0 h1 h2 res show ?thesis by blast
qed

end
